theory Spec2Isabelle
  imports Complex_Main
begin

section \<open>Strings and dates\<close>

text \<open>
  The component \<open>PhotoEditor\<close> (the later of the two versions in \<open>src/app/page.tsx\<close>, the
  one with the responsive date label) is embedded function by function. JavaScript
  numbers are idealised as real numbers; the integer components of a \<open>Date\<close> are
  integers and naturals.
\<close>

text \<open>A \<open>Date\<close>, read through the three getters the component calls: the full year, the
  zero-based month index and the day of the month.\<close>

record Date =
  getFullYear :: int
  getMonth :: nat
  getDate :: nat

definition digit_char :: "nat \<Rightarrow> char" where
  "digit_char d = ''0123456789'' ! (d mod 10)"

text \<open>\<open>String(n)\<close> for a non-negative integer: its decimal digits, no leading zero.\<close>

fun string_of_nat :: "nat \<Rightarrow> string" where
  "string_of_nat n =
     (if n < 10 then [digit_char n]
      else string_of_nat (n div 10) @ [digit_char (n mod 10)])"

declare string_of_nat.simps [simp del]

text \<open>\<open>String(n)\<close> for an integer: a minus sign in front of a negative one.\<close>

definition String_of_int :: "int \<Rightarrow> string" where
  "String_of_int i =
     (if i < 0 then CHR ''-'' # string_of_nat (nat (- i)) else string_of_nat (nat i))"

text \<open>\<open>str.padStart(targetLength, padString)\<close>: the pad string is repeated and cut so
  that the result reaches the target length; a string already long enough is unchanged.\<close>

definition padStart :: "nat \<Rightarrow> string \<Rightarrow> string \<Rightarrow> string" where
  "padStart targetLength padString str =
     (if targetLength \<le> length str \<or> padString = [] then str
      else take (targetLength - length str)
             (concat (replicate (targetLength - length str) padString)) @ str)"

text \<open>\<open>formatDate\<close>:
  \<^verbatim>\<open>const year = date.getFullYear();
const month = String(date.getMonth() + 1).padStart(2, '0');
const day = String(date.getDate()).padStart(2, '0');
return `${year}/${month}/${day}`;\<close>\<close>

definition formatDate :: "Date \<Rightarrow> string" where
  "formatDate date =
     (let year = getFullYear date;
          month = padStart 2 ''0'' (string_of_nat (getMonth date + 1));
          day = padStart 2 ''0'' (string_of_nat (getDate date))
      in String_of_int year @ ''/'' @ month @ ''/'' @ day)"

text \<open>\<open>str.replace(/\//g, '-')\<close>: every slash becomes a dash, nothing else changes.\<close>

definition replace_slashes :: "string \<Rightarrow> string" where
  "replace_slashes str = map (\<lambda>c. if c = CHR ''/'' then CHR ''-'' else c) str"


section \<open>The 2D drawing surface\<close>

text \<open>
  The browser's canvas is modelled as far as the component uses it. A context holds the
  drawing state (current transformation, compositing operation, fill style, font), the
  stack of states pushed by \<open>save\<close>, the current path, and the list of everything painted
  so far, each entry with the drawing state in force when it was painted.
  The current transformation is kept as the sequence of \<open>translate\<close> and \<open>rotate\<close> calls
  that built it; the empty sequence is the identity. Strings given to \<open>fillStyle\<close> and
  \<open>font\<close> are kept in parsed form.
\<close>

datatype xform = Translate real real | Rotate real

datatype composite_op = source_over | destination_in

text \<open>\<open>Black\<close> is the default fill style \<open>#000000\<close>, \<open>White\<close> is \<open>'white'\<close>, and
  \<open>Rgba r g b a\<close> is \<open>'rgba(r, g, b, a)'\<close>.\<close>

datatype colour = Black | White | Rgba nat nat nat real

record font_spec =
  bold :: bool
  size_px :: real
  family :: string

record drawing_state =
  transform :: "xform list"
  globalCompositeOperation :: composite_op
  fillStyle :: colour
  font :: font_spec

text \<open>A decoded image: its size and the opacity of the pixel at each source position.\<close>

record source_image =
  naturalWidth :: real
  naturalHeight :: real
  alpha_at :: "real \<Rightarrow> real \<Rightarrow> real"

text \<open>\<open>Arc x y radius startAngle endAngle\<close>, as given to \<open>ctx.arc\<close>.\<close>

datatype segment = Arc real real real real real

datatype primitive =
    DrawImage source_image real real real real real real real real
  | FillPath "(xform list \<times> segment) list"
  | FillRect real real real real
  | FillText string real real

record context2d =
  state :: drawing_state
  saved :: "drawing_state list"
  path :: "(xform list \<times> segment) list"
  painted :: "(drawing_state \<times> primitive) list"

record canvas =
  canvas_width :: real
  canvas_height :: real
  ctx :: context2d

definition default_state :: drawing_state where
  "default_state =
     \<lparr>transform = [], globalCompositeOperation = source_over, fillStyle = Black,
      font = \<lparr>bold = False, size_px = 10, family = ''sans-serif''\<rparr>\<rparr>"

definition initial_context :: context2d where
  "initial_context = \<lparr>state = default_state, saved = [], path = [], painted = []\<rparr>"

text \<open>\<open>document.createElement('canvas')\<close>: 300 by 150, nothing painted.\<close>

definition createCanvas :: canvas where
  "createCanvas = \<lparr>canvas_width = 300, canvas_height = 150, ctx = initial_context\<rparr>"

text \<open>Assigning \<open>canvas.width\<close> or \<open>canvas.height\<close> clears the surface and resets the
  context. The fields hold the number assigned: the cropper delivers rounded pixel counts,
  and on those the conversion of the two attributes to unsigned integers changes nothing,
  so it is left out.\<close>

definition set_width :: "real \<Rightarrow> canvas \<Rightarrow> canvas" where
  "set_width w c = c\<lparr>canvas_width := w, ctx := initial_context\<rparr>"

definition set_height :: "real \<Rightarrow> canvas \<Rightarrow> canvas" where
  "set_height h c = c\<lparr>canvas_height := h, ctx := initial_context\<rparr>"

definition save :: "context2d \<Rightarrow> context2d" where
  "save c = c\<lparr>saved := state c # saved c\<rparr>"

definition restore :: "context2d \<Rightarrow> context2d" where
  "restore c = (case saved c of [] \<Rightarrow> c | st # rest \<Rightarrow> c\<lparr>state := st, saved := rest\<rparr>)"

definition add_xform :: "xform \<Rightarrow> context2d \<Rightarrow> context2d" where
  "add_xform t c = c\<lparr>state := (state c)\<lparr>transform := transform (state c) @ [t]\<rparr>\<rparr>"

definition translate :: "real \<Rightarrow> real \<Rightarrow> context2d \<Rightarrow> context2d" where
  "translate tx ty c = add_xform (Translate tx ty) c"

definition rotate_ctx :: "real \<Rightarrow> context2d \<Rightarrow> context2d" where
  "rotate_ctx angle c = add_xform (Rotate angle) c"

definition paint :: "primitive \<Rightarrow> context2d \<Rightarrow> context2d" where
  "paint p c = c\<lparr>painted := painted c @ [(state c, p)]\<rparr>"

definition drawImage ::
  "source_image \<Rightarrow> real \<Rightarrow> real \<Rightarrow> real \<Rightarrow> real \<Rightarrow> real \<Rightarrow> real \<Rightarrow> real \<Rightarrow> real
     \<Rightarrow> context2d \<Rightarrow> context2d" where
  "drawImage img sx sy sw sh dx dy dw dh c = paint (DrawImage img sx sy sw sh dx dy dw dh) c"

definition set_globalCompositeOperation :: "composite_op \<Rightarrow> context2d \<Rightarrow> context2d" where
  "set_globalCompositeOperation v c = c\<lparr>state := (state c)\<lparr>globalCompositeOperation := v\<rparr>\<rparr>"

definition set_fillStyle :: "colour \<Rightarrow> context2d \<Rightarrow> context2d" where
  "set_fillStyle v c = c\<lparr>state := (state c)\<lparr>fillStyle := v\<rparr>\<rparr>"

definition set_font :: "font_spec \<Rightarrow> context2d \<Rightarrow> context2d" where
  "set_font v c = c\<lparr>state := (state c)\<lparr>font := v\<rparr>\<rparr>"

definition beginPath :: "context2d \<Rightarrow> context2d" where
  "beginPath c = c\<lparr>path := []\<rparr>"

definition arc :: "real \<Rightarrow> real \<Rightarrow> real \<Rightarrow> real \<Rightarrow> real \<Rightarrow> context2d \<Rightarrow> context2d" where
  "arc x y radius startAngle endAngle c =
     c\<lparr>path := path c @ [(transform (state c), Arc x y radius startAngle endAngle)]\<rparr>"

definition fill :: "context2d \<Rightarrow> context2d" where
  "fill c = paint (FillPath (path c)) c"

definition fillRect :: "real \<Rightarrow> real \<Rightarrow> real \<Rightarrow> real \<Rightarrow> context2d \<Rightarrow> context2d" where
  "fillRect x y w h c = paint (FillRect x y w h) c"

definition fillText :: "string \<Rightarrow> real \<Rightarrow> real \<Rightarrow> context2d \<Rightarrow> context2d" where
  "fillText t x y c = paint (FillText t x y) c"

text \<open>
  What \<open>canvas.toDataURL(type)\<close> returns: for a surface that has pixels, a data URL that
  holds the surface as it is at the call in the encoding asked for; for a surface whose
  width or height is zero, the bare string \<open>data:,\<close>, which holds no image at all.
\<close>

datatype data_url = DataURL string canvas | EmptyDataURL

definition toDataURL :: "string \<Rightarrow> canvas \<Rightarrow> data_url" where
  "toDataURL type c =
     (if canvas_width c = 0 \<or> canvas_height c = 0 then EmptyDataURL else DataURL type c)"

text \<open>
  What the browser supplies and the component does not control: whether and to what the
  image source decodes (\<open>None\<close>: the \<open>load\<close> event never fires), whether a 2D context is
  available, the measured width of a text in a font, and the opacity of the rendered
  glyphs at an offset from the text anchor.
\<close>

record browser =
  loadImage :: "string \<Rightarrow> source_image option"
  getContext2d :: bool
  measureText_width :: "font_spec \<Rightarrow> string \<Rightarrow> real"
  glyph_alpha :: "font_spec \<Rightarrow> string \<Rightarrow> real \<Rightarrow> real \<Rightarrow> real"

definition measureText :: "browser \<Rightarrow> string \<Rightarrow> context2d \<Rightarrow> real" where
  "measureText env t c = measureText_width env (font (state c)) t"


section \<open>The component's state and operations\<close>

record CroppedAreaPixels =
  area_x :: real
  area_y :: real
  area_width :: real
  area_height :: real

datatype crop_shape = Rect | Round

text \<open>The \<open>useState\<close> cells of \<open>PhotoEditor\<close>; \<open>None\<close> is \<open>null\<close>.\<close>

record editor_state =
  imageSrc :: "string option"
  crop :: "real \<times> real"
  zoom :: real
  rotation :: real
  cropShape :: crop_shape
  aspectRatio :: "real option"
  croppedAreaPixels :: "CroppedAreaPixels option"
  selectedDate :: "Date option"
  finalImage :: "data_url option"
  showTouchControls :: bool

text \<open>Truthiness of a \<open>string | null\<close>: \<open>null\<close> and the empty string are falsy.\<close>

definition truthy :: "string option \<Rightarrow> bool" where
  "truthy v = (case v of None \<Rightarrow> False | Some str \<Rightarrow> str \<noteq> [])"

text \<open>The initial values of the state cells; the date starts as \<open>new Date()\<close>, the day
  the component is mounted.\<close>

definition initial_state :: "Date \<Rightarrow> editor_state" where
  "initial_state today =
     \<lparr>imageSrc = None, crop = (0, 0), zoom = 1, rotation = 0, cropShape = Rect,
      aspectRatio = None, croppedAreaPixels = None, selectedDate = Some today,
      finalImage = None, showTouchControls = True\<rparr>"

text \<open>The \<open>onChange\<close> handler of the date picker; the picker passes \<open>null\<close> when the
  field is cleared.\<close>

definition setSelectedDate :: "Date option \<Rightarrow> editor_state \<Rightarrow> editor_state" where
  "setSelectedDate date s = s\<lparr>selectedDate := date\<rparr>"

definition onCropComplete :: "CroppedAreaPixels \<Rightarrow> editor_state \<Rightarrow> editor_state" where
  "onCropComplete area s = s\<lparr>croppedAreaPixels := Some area\<rparr>"

text \<open>The drawing part of \<open>createFinalImage\<close>, from \<open>document.createElement('canvas')\<close>
  to the last \<open>fillText\<close>, statement by statement.\<close>

definition drawFinalImage ::
  "browser \<Rightarrow> source_image \<Rightarrow> CroppedAreaPixels \<Rightarrow> real \<Rightarrow> crop_shape \<Rightarrow> Date \<Rightarrow> canvas" where
  "drawFinalImage env img area rot shape date =
     (let canvas = createCanvas;
          canvas = set_width (area_width area) canvas;
          canvas = set_height (area_height area) canvas;
          w = canvas_width canvas;
          h = canvas_height canvas;
          c = ctx canvas;
          c = save c;
          c = translate (w / 2) (h / 2) c;
          c = rotate_ctx ((rot * pi) / 180) c;
          c = translate (- w / 2) (- h / 2) c;
          c = drawImage img (area_x area) (area_y area) (area_width area) (area_height area)
                0 0 (area_width area) (area_height area) c;
          c = restore c;
          c = (if shape = Round then
                 (let c = set_globalCompositeOperation destination_in c;
                      c = beginPath c;
                      c = arc (w / 2) (h / 2) (min w h / 2) 0 (pi * 2) c;
                      c = fill c
                  in set_globalCompositeOperation source_over c)
               else c);
          fontSize = min (w * 0.05) 32;
          padding = fontSize * 0.75;
          dateText = formatDate date;
          c = set_font \<lparr>bold = True, size_px = fontSize, family = ''Arial''\<rparr> c;
          textWidth = measureText env dateText c;
          c = set_fillStyle (Rgba 0 0 0 0.7) c;
          c = fillRect padding (h - (fontSize + padding * 2)) (textWidth + padding * 2)
                (fontSize + padding * 2) c;
          c = set_fillStyle White c;
          c = fillText dateText (padding * 2) (h - padding) c
      in canvas\<lparr>ctx := c\<rparr>)"

text \<open>
  \<open>createFinalImage\<close>. The result \<open>None\<close> stands for a call that never completes: the
  awaited promise resolves only on the image's \<open>load\<close> event. \<open>Some s'\<close> is the state
  once the call has completed; the early \<open>return\<close>s leave the state as it was. The first
  three cases are the guard
  \<^verbatim>\<open>if (!imageSrc || !croppedAreaPixels || !selectedDate) return;\<close>
  (a source that is \<open>null\<close> or the empty string, no crop rectangle, no date), the last
  one is \<^verbatim>\<open>if (!ctx) return;\<close>.
\<close>

definition createFinalImage :: "browser \<Rightarrow> editor_state \<Rightarrow> editor_state option" where
  "createFinalImage env s =
     (case imageSrc s of
        None \<Rightarrow> Some s
      | Some src \<Rightarrow>
          if src = [] then Some s
          else
            (case croppedAreaPixels s of
               None \<Rightarrow> Some s
             | Some area \<Rightarrow>
                 (case selectedDate s of
                    None \<Rightarrow> Some s
                  | Some date \<Rightarrow>
                      (case loadImage env src of
                         None \<Rightarrow> None
                       | Some img \<Rightarrow>
                           if \<not> getContext2d env then Some s
                           else
                             Some (s\<lparr>finalImage :=
                               Some (toDataURL ''image/png''
                                 (drawFinalImage env img area (rotation s) (cropShape s)
                                    date))\<rparr>)))))"

text \<open>\<open>onFileChange\<close>, once the file reader has loaded: the new source replaces the old one
  and the previous result is dropped.\<close>

definition onFileLoaded :: "string \<Rightarrow> editor_state \<Rightarrow> editor_state" where
  "onFileLoaded result s = s\<lparr>imageSrc := Some result, finalImage := None\<rparr>"

text \<open>The \<open>download\<close> attribute of the result link:
  \<^verbatim>\<open>`photo_${selectedDate ? formatDate(selectedDate).replace(/\//g, '-') : 'edited'}.png`\<close>\<close>

definition downloadName :: "editor_state \<Rightarrow> string" where
  "downloadName s =
     ''photo_'' @
     (case selectedDate s of
        Some date \<Rightarrow> replace_slashes (formatDate date)
      | None \<Rightarrow> ''edited'') @
     ''.png''"

record download_link =
  href :: data_url
  download :: string

text \<open>The result section is rendered inside the \<open>imageSrc ? ... : ...\<close> branch, under
  \<open>finalImage &&\<close>; a data URL is never the empty string.\<close>

definition resultLink :: "editor_state \<Rightarrow> download_link option" where
  "resultLink s =
     (if truthy (imageSrc s) then
        (case finalImage s of
           None \<Rightarrow> None
         | Some url \<Rightarrow> Some \<lparr>href = url, download = downloadName s\<rparr>)
      else None)"


section \<open>What a painted surface shows\<close>

text \<open>
  The opacity of a surface at a point, from the list of what was painted: coverage is
  taken pointwise (a point is covered or it is not), and the compositing operations act
  on opacity as the Porter-Duff rules say. The current transformation maps the
  coordinates given to a drawing call to surface coordinates; \<open>to_user\<close> maps back.
\<close>

fun apply_xform :: "xform \<Rightarrow> real \<times> real \<Rightarrow> real \<times> real" where
  "apply_xform (Translate tx ty) (px, py) = (px + tx, py + ty)"
| "apply_xform (Rotate a) (px, py) = (px * cos a - py * sin a, px * sin a + py * cos a)"

fun undo_xform :: "xform \<Rightarrow> real \<times> real \<Rightarrow> real \<times> real" where
  "undo_xform (Translate tx ty) (px, py) = (px - tx, py - ty)"
| "undo_xform (Rotate a) (px, py) = (px * cos a + py * sin a, py * cos a - px * sin a)"

definition to_canvas :: "xform list \<Rightarrow> real \<times> real \<Rightarrow> real \<times> real" where
  "to_canvas ts p = foldr apply_xform ts p"

definition to_user :: "xform list \<Rightarrow> real \<times> real \<Rightarrow> real \<times> real" where
  "to_user ts p = fold undo_xform ts p"

text \<open>A coordinate lies within the side of a rectangle that starts at \<open>a\<close> and has
  extent \<open>len\<close> (a negative extent runs backwards).\<close>

definition in_span :: "real \<Rightarrow> real \<Rightarrow> real \<Rightarrow> bool" where
  "in_span a len v = (min a (a + len) \<le> v \<and> v \<le> max a (a + len))"

text \<open>An arc that sweeps a full turn or more is the whole circle and fills as a disc.
  The component draws no other arc; a shorter one is given no area here.\<close>

fun segment_covers :: "segment \<Rightarrow> real \<times> real \<Rightarrow> bool" where
  "segment_covers (Arc cx cy r startAngle endAngle) (px, py) =
     (0 \<le> r \<and> 2 * pi \<le> endAngle - startAngle \<and> (px - cx)\<^sup>2 + (py - cy)\<^sup>2 \<le> r\<^sup>2)"

fun colour_alpha :: "colour \<Rightarrow> real" where
  "colour_alpha Black = 1"
| "colour_alpha White = 1"
| "colour_alpha (Rgba r g b a) = min 1 (max 0 a)"

text \<open>Outside its bounds an image contributes nothing.\<close>

definition image_alpha :: "source_image \<Rightarrow> real \<Rightarrow> real \<Rightarrow> real" where
  "image_alpha img sx sy =
     (if 0 \<le> sx \<and> sx \<le> naturalWidth img \<and> 0 \<le> sy \<and> sy \<le> naturalHeight img
      then alpha_at img sx sy else 0)"

text \<open>The opacity a painted entry offers at a surface point, before compositing.\<close>

fun source_alpha :: "browser \<Rightarrow> drawing_state \<times> primitive \<Rightarrow> real \<times> real \<Rightarrow> real" where
  "source_alpha env (st, DrawImage img sx sy sw sh dx dy dw dh) p =
     (let u = to_user (transform st) p in
      if sw = 0 \<or> sh = 0 \<or> dw = 0 \<or> dh = 0 then 0
      else if in_span dx dw (fst u) \<and> in_span dy dh (snd u)
      then image_alpha img (sx + (fst u - dx) * sw / dw) (sy + (snd u - dy) * sh / dh)
      else 0)"
| "source_alpha env (st, FillPath segs) p =
     (if list_ex (\<lambda>(ts, seg). segment_covers seg (to_user ts p)) segs
      then colour_alpha (fillStyle st) else 0)"
| "source_alpha env (st, FillRect x y w h) p =
     (let u = to_user (transform st) p in
      if in_span x w (fst u) \<and> in_span y h (snd u) then colour_alpha (fillStyle st) else 0)"
| "source_alpha env (st, FillText t x y) p =
     (let u = to_user (transform st) p in
      colour_alpha (fillStyle st) * glyph_alpha env (font st) t (fst u - x) (snd u - y))"

text \<open>\<open>blend op src dst\<close>: the opacity left where \<open>src\<close> is composited onto \<open>dst\<close>.\<close>

fun blend :: "composite_op \<Rightarrow> real \<Rightarrow> real \<Rightarrow> real" where
  "blend source_over src dst = src + dst * (1 - src)"
| "blend destination_in src dst = dst * src"

definition composite_entry ::
  "browser \<Rightarrow> real \<times> real \<Rightarrow> real \<Rightarrow> drawing_state \<times> primitive \<Rightarrow> real" where
  "composite_entry env p dst e =
     blend (globalCompositeOperation (fst e)) (source_alpha env e p) dst"

text \<open>A cleared surface is transparent; the entries are composited in painting order.\<close>

definition surface_alpha ::
  "browser \<Rightarrow> (drawing_state \<times> primitive) list \<Rightarrow> real \<times> real \<Rightarrow> real" where
  "surface_alpha env entries p = foldl (composite_entry env p) 0 entries"

text \<open>The rectangles filled and the texts drawn on a surface, in painting order.\<close>

fun rect_of :: "drawing_state \<times> primitive \<Rightarrow> (real \<times> real \<times> real \<times> real) list" where
  "rect_of (st, FillRect x y w h) = [(x, y, w, h)]"
| "rect_of (st, DrawImage img sx sy sw sh dx dy dw dh) = []"
| "rect_of (st, FillPath segs) = []"
| "rect_of (st, FillText t x y) = []"

definition filled_rects :: "canvas \<Rightarrow> (real \<times> real \<times> real \<times> real) list" where
  "filled_rects c = concat (map rect_of (painted (ctx c)))"

fun text_of :: "drawing_state \<times> primitive \<Rightarrow> (string \<times> real \<times> real) list" where
  "text_of (st, FillText t x y) = [(t, x, y)]"
| "text_of (st, DrawImage img sx sy sw sh dx dy dw dh) = []"
| "text_of (st, FillPath segs) = []"
| "text_of (st, FillRect x y w h) = []"

definition drawn_texts :: "canvas \<Rightarrow> (string \<times> real \<times> real) list" where
  "drawn_texts c = concat (map text_of (painted (ctx c)))"

text \<open>How far the lower edge of a rectangle \<open>(x, y, w, h)\<close> lies above the bottom edge of
  a surface (the vertical axis points down).\<close>

fun gap_below :: "canvas \<Rightarrow> real \<times> real \<times> real \<times> real \<Rightarrow> real" where
  "gap_below c (x, y, w, h) = canvas_height c - (y + h)"

section \<open>Concrete inputs\<close>

definition example_image :: source_image where
  "example_image = \<lparr>naturalWidth = 640, naturalHeight = 480, alpha_at = (\<lambda>sx sy. 1)\<rparr>"

definition example_browser :: browser where
  "example_browser =
     \<lparr>loadImage = (\<lambda>src. Some example_image),
      getContext2d = True,
      measureText_width = (\<lambda>f t. size_px f * real (length t) / 2),
      glyph_alpha = (\<lambda>f t dx dy. 0)\<rparr>"

definition example_area :: CroppedAreaPixels where
  "example_area = \<lparr>area_x = 10, area_y = 20, area_width = 100, area_height = 80\<rparr>"

definition example_date :: Date where
  "example_date = \<lparr>getFullYear = 2024, getMonth = 2, getDate = 7\<rparr>"

definition example_state :: editor_state where
  "example_state =
     \<lparr>imageSrc = Some ''data:image/jpeg;base64,AAAA'', crop = (0, 0), zoom = 1,
      rotation = 90, cropShape = Round, aspectRatio = None,
      croppedAreaPixels = Some example_area, selectedDate = Some example_date,
      finalImage = None, showTouchControls = True\<rparr>"


definition example_output :: canvas where
  "example_output = drawFinalImage example_browser example_image example_area 90 Round example_date"

text \<open>The crop rectangle \<open>{x: 0, y: 0, width: 0, height: 50}\<close>, in a state that already
  shows a generated result.\<close>

definition zero_width_area :: CroppedAreaPixels where
  "zero_width_area = \<lparr>area_x = 0, area_y = 0, area_width = 0, area_height = 50\<rparr>"

definition zero_width_state :: editor_state where
  "zero_width_state =
     example_state\<lparr>croppedAreaPixels := Some zero_width_area,
                   finalImage := Some (toDataURL ''image/png'' example_output)\<rparr>"

text \<open>The component just after the first upload: an image source, a date, no crop
  rectangle yet and no result.\<close>

definition uploaded_state :: editor_state where
  "uploaded_state = onFileLoaded ''data:image/jpeg;base64,AAAA'' (initial_state example_date)"

text \<open>A crop rectangle 1000 pixels wide, drawn unrotated and unclipped.\<close>

definition wide_area :: CroppedAreaPixels where
  "wide_area = \<lparr>area_x = 0, area_y = 0, area_width = 1000, area_height = 500\<rparr>"

definition wide_state :: editor_state where
  "wide_state = example_state\<lparr>croppedAreaPixels := Some wide_area, rotation := 0, cropShape := Rect\<rparr>"

text \<open>The first example with the rotation set back to zero.\<close>

definition unrotated_state :: editor_state where
  "unrotated_state = example_state\<lparr>rotation := 0\<rparr>"

section \<open>Decimal strings\<close>

lemma digit_char_simps:
  "digit_char 0 = CHR ''0''" 
  by (simp add: digit_char_def)

lemma string_of_nat_small: "n < 10 \<Longrightarrow> string_of_nat n = [digit_char n]"
  by (simp add: string_of_nat.simps)

lemma string_of_nat_two:
  assumes "10 \<le> n" and "n < 100"
  shows "string_of_nat n = [digit_char (n div 10), digit_char (n mod 10)]"
proof -
  have "n div 10 < 10" using assms by simp
  then show ?thesis
    using assms by (simp add: string_of_nat.simps [of n] string_of_nat_small)
qed

lemma padStart_two_digits:
  assumes "n < 100"
  shows "padStart 2 ''0'' (string_of_nat n) = [digit_char (n div 10), digit_char (n mod 10)]"
proof (cases "n < 10")
  case True
  then show ?thesis
    by (simp add: padStart_def string_of_nat_small digit_char_simps)
next
  case False
  then show ?thesis
    using assms by (simp add: padStart_def string_of_nat_two)
qed

lemma digit_char_in: "digit_char d \<in> set ''0123456789''"
  unfolding digit_char_def by (rule nth_mem) simp

lemma digit_char_not_slash: "digit_char d \<noteq> CHR ''/''"
  using digit_char_in [of d] by auto

lemma string_of_nat_no_slash: "CHR ''/'' \<notin> set (string_of_nat n)"
proof (induction n rule: string_of_nat.induct)
  case (1 n)
  show ?case
  proof (cases "n < 10")
    case True
    then show ?thesis using digit_char_not_slash [of n] by (simp add: string_of_nat_small)
  next
    case False
    then show ?thesis
      using 1 digit_char_not_slash [of "n mod 10"] by (simp add: string_of_nat.simps [of n])
  qed
qed

lemma String_of_int_no_slash: "CHR ''/'' \<notin> set (String_of_int i)"
  by (simp add: String_of_int_def string_of_nat_no_slash)

lemma replace_slashes_id: "CHR ''/'' \<notin> set str \<Longrightarrow> replace_slashes str = str"
  by (induction str) (auto simp: replace_slashes_def)

lemma replace_slashes_append:
  "replace_slashes (xs @ ys) = replace_slashes xs @ replace_slashes ys"
  by (simp add: replace_slashes_def)

lemma string_of_nat_three:
  assumes "100 \<le> n" and "n < 1000"
  shows "string_of_nat n =
    [digit_char (n div 100), digit_char (n div 10 mod 10), digit_char (n mod 10)]"
proof -
  have "10 \<le> n div 10" "n div 10 < 100" using assms by auto
  then have "string_of_nat (n div 10) = [digit_char (n div 10 div 10), digit_char (n div 10 mod 10)]"
    by (rule string_of_nat_two)
  moreover have "n div 10 div 10 = n div 100" by (simp add: div_mult2_eq [symmetric])
  ultimately show ?thesis
    using assms by (simp add: string_of_nat.simps [of n])
qed

lemma string_of_nat_four:
  assumes "1000 \<le> n" and "n < 10000"
  shows "string_of_nat n =
    [digit_char (n div 1000), digit_char (n div 100 mod 10), digit_char (n div 10 mod 10),
     digit_char (n mod 10)]"
proof -
  have "100 \<le> n div 10" "n div 10 < 1000" using assms by auto
  then have "string_of_nat (n div 10) =
      [digit_char (n div 10 div 100), digit_char (n div 10 div 10 mod 10), digit_char (n div 10 mod 10)]"
    by (rule string_of_nat_three)
  moreover have "n div 10 div 10 = n div 100" "n div 10 div 100 = n div 1000"
    by (simp_all add: div_mult2_eq [symmetric])
  ultimately show ?thesis
    using assms by (simp add: string_of_nat.simps [of n])
qed


section \<open>The drawing code, unfolded\<close>

text \<open>Each context operation on an explicit context, and the surface that the drawing
  code leaves: its size, its final context and everything painted, in order.\<close>

lemma ctx_op_simps:
  "save \<lparr>state = st, saved = sv, path = pa, painted = pt\<rparr> =
     \<lparr>state = st, saved = st # sv, path = pa, painted = pt\<rparr>"
  "restore \<lparr>state = st, saved = st' # sv, path = pa, painted = pt\<rparr> =
     \<lparr>state = st', saved = sv, path = pa, painted = pt\<rparr>"
  "translate tx ty
     \<lparr>state = \<lparr>transform = ts, globalCompositeOperation = g, fillStyle = fy, font = fo\<rparr>,
      saved = sv, path = pa, painted = pt\<rparr> =
     \<lparr>state = \<lparr>transform = ts @ [Translate tx ty], globalCompositeOperation = g,
               fillStyle = fy, font = fo\<rparr>,
      saved = sv, path = pa, painted = pt\<rparr>"
  "rotate_ctx a
     \<lparr>state = \<lparr>transform = ts, globalCompositeOperation = g, fillStyle = fy, font = fo\<rparr>,
      saved = sv, path = pa, painted = pt\<rparr> =
     \<lparr>state = \<lparr>transform = ts @ [Rotate a], globalCompositeOperation = g,
               fillStyle = fy, font = fo\<rparr>,
      saved = sv, path = pa, painted = pt\<rparr>"
  "paint prim \<lparr>state = st, saved = sv, path = pa, painted = pt\<rparr> =
     \<lparr>state = st, saved = sv, path = pa, painted = pt @ [(st, prim)]\<rparr>"
  "set_globalCompositeOperation g'
     \<lparr>state = \<lparr>transform = ts, globalCompositeOperation = g, fillStyle = fy, font = fo\<rparr>,
      saved = sv, path = pa, painted = pt\<rparr> =
     \<lparr>state = \<lparr>transform = ts, globalCompositeOperation = g', fillStyle = fy, font = fo\<rparr>,
      saved = sv, path = pa, painted = pt\<rparr>"
  "set_fillStyle fy'
     \<lparr>state = \<lparr>transform = ts, globalCompositeOperation = g, fillStyle = fy, font = fo\<rparr>,
      saved = sv, path = pa, painted = pt\<rparr> =
     \<lparr>state = \<lparr>transform = ts, globalCompositeOperation = g, fillStyle = fy', font = fo\<rparr>,
      saved = sv, path = pa, painted = pt\<rparr>"
  "set_font fo'
     \<lparr>state = \<lparr>transform = ts, globalCompositeOperation = g, fillStyle = fy, font = fo\<rparr>,
      saved = sv, path = pa, painted = pt\<rparr> =
     \<lparr>state = \<lparr>transform = ts, globalCompositeOperation = g, fillStyle = fy, font = fo'\<rparr>,
      saved = sv, path = pa, painted = pt\<rparr>"
  "beginPath \<lparr>state = st, saved = sv, path = pa, painted = pt\<rparr> =
     \<lparr>state = st, saved = sv, path = [], painted = pt\<rparr>"
  "arc x y r a0 a1
     \<lparr>state = \<lparr>transform = ts, globalCompositeOperation = g, fillStyle = fy, font = fo\<rparr>,
      saved = sv, path = pa, painted = pt\<rparr> =
     \<lparr>state = \<lparr>transform = ts, globalCompositeOperation = g, fillStyle = fy, font = fo\<rparr>,
      saved = sv, path = pa @ [(ts, Arc x y r a0 a1)], painted = pt\<rparr>"
  "fill \<lparr>state = st, saved = sv, path = pa, painted = pt\<rparr> =
     \<lparr>state = st, saved = sv, path = pa, painted = pt @ [(st, FillPath pa)]\<rparr>"
  "measureText env t
     \<lparr>state = \<lparr>transform = ts, globalCompositeOperation = g, fillStyle = fy, font = fo\<rparr>,
      saved = sv, path = pa, painted = pt\<rparr> = measureText_width env fo t"
  by (simp_all add: save_def restore_def translate_def rotate_ctx_def add_xform_def paint_def
      set_globalCompositeOperation_def set_fillStyle_def set_font_def beginPath_def arc_def
      fill_def measureText_def)

lemmas canvas_simps = createCanvas_def set_width_def set_height_def initial_context_def
  default_state_def drawImage_def fillRect_def fillText_def

lemma drawFinalImage_eq:
  assumes "w = area_width area" and "h = area_height area"
    and "fs = min (w * 0.05) 32" and "p = fs * 0.75"
    and "label = \<lparr>bold = True, size_px = fs, family = ''Arial''\<rparr>"
    and "tw = measureText_width env label (formatDate date)"
  shows "drawFinalImage env img area rot shape date =
    \<lparr>canvas_width = w, canvas_height = h,
     ctx = \<lparr>state = default_state\<lparr>font := label, fillStyle := White\<rparr>, saved = [],
       path = (if shape = Round then [([], Arc (w / 2) (h / 2) (min w h / 2) 0 (pi * 2))] else []),
       painted =
     [(default_state\<lparr>transform :=
          [Translate (w / 2) (h / 2), Rotate ((rot * pi) / 180), Translate (- w / 2) (- h / 2)]\<rparr>,
       DrawImage img (area_x area) (area_y area) w h 0 0 w h)] @
     (if shape = Round then
        [(default_state\<lparr>globalCompositeOperation := destination_in\<rparr>,
          FillPath [([], Arc (w / 2) (h / 2) (min w h / 2) 0 (pi * 2))])]
      else []) @
     [(default_state\<lparr>font := label, fillStyle := Rgba 0 0 0 0.7\<rparr>,
       FillRect p (h - (fs + p * 2)) (tw + p * 2) (fs + p * 2)),
      (default_state\<lparr>font := label, fillStyle := White\<rparr>,
       FillText (formatDate date) (p * 2) (h - p))]\<rparr>\<rparr>"
proof (cases "shape = Round")
  case True
  show ?thesis
    unfolding assms drawFinalImage_def Let_def
    by (simp add: True canvas_simps ctx_op_simps)
next
  case False
  show ?thesis
    unfolding assms drawFinalImage_def Let_def
    by (simp add: False canvas_simps ctx_op_simps)
qed

lemma size_drawFinalImage:
  "canvas_width (drawFinalImage env img area rot shape date) = area_width area"
  "canvas_height (drawFinalImage env img area rot shape date) = area_height area"
  by (simp_all add: drawFinalImage_eq [OF refl refl refl refl refl refl])

lemma painted_drawFinalImage:
  assumes "w = area_width area" and "h = area_height area"
    and "fs = min (w * 0.05) 32" and "p = fs * 0.75"
    and "label = \<lparr>bold = True, size_px = fs, family = ''Arial''\<rparr>"
    and "tw = measureText_width env label (formatDate date)"
  shows "painted (ctx (drawFinalImage env img area rot shape date)) =
     [(default_state\<lparr>transform :=
          [Translate (w / 2) (h / 2), Rotate ((rot * pi) / 180), Translate (- w / 2) (- h / 2)]\<rparr>,
       DrawImage img (area_x area) (area_y area) w h 0 0 w h)] @
     (if shape = Round then
        [(default_state\<lparr>globalCompositeOperation := destination_in\<rparr>,
          FillPath [([], Arc (w / 2) (h / 2) (min w h / 2) 0 (pi * 2))])]
      else []) @
     [(default_state\<lparr>font := label, fillStyle := Rgba 0 0 0 0.7\<rparr>,
       FillRect p (h - (fs + p * 2)) (tw + p * 2) (fs + p * 2)),
      (default_state\<lparr>font := label, fillStyle := White\<rparr>,
       FillText (formatDate date) (p * 2) (h - p))]"
  by (simp add: drawFinalImage_eq [OF assms])

lemma observers_drawFinalImage:
  assumes "w = area_width area" and "h = area_height area"
    and "fs = min (w * 0.05) 32" and "p = fs * 0.75"
    and "label = \<lparr>bold = True, size_px = fs, family = ''Arial''\<rparr>"
    and "tw = measureText_width env label (formatDate date)"
  shows "filled_rects (drawFinalImage env img area rot shape date) =
           [(p, h - (fs + p * 2), tw + p * 2, fs + p * 2)]"
    and "drawn_texts (drawFinalImage env img area rot shape date) =
           [(formatDate date, p * 2, h - p)]"
  by (simp_all add: filled_rects_def drawn_texts_def painted_drawFinalImage [OF assms])

lemma createFinalImage_completes:
  assumes "imageSrc s = Some src" and "src \<noteq> []"
    and "croppedAreaPixels s = Some area" and "selectedDate s = Some date"
    and "loadImage env src = Some img" and "getContext2d env"
  shows "createFinalImage env s =
     Some (s\<lparr>finalImage := Some (toDataURL ''image/png''
       (drawFinalImage env img area (rotation s) (cropShape s) date))\<rparr>)"
  using assms by (simp add: createFinalImage_def)

lemma example_guards:
  "imageSrc example_state = Some ''data:image/jpeg;base64,AAAA''"
  "''data:image/jpeg;base64,AAAA'' \<noteq> []"
  "croppedAreaPixels example_state = Some example_area"
  "selectedDate example_state = Some example_date"
  "loadImage example_browser ''data:image/jpeg;base64,AAAA'' = Some example_image"
  "getContext2d example_browser"
  by (simp_all add: example_state_def example_browser_def)

lemma wide_guards:
  "imageSrc wide_state = Some ''data:image/jpeg;base64,AAAA''"
  "''data:image/jpeg;base64,AAAA'' \<noteq> []"
  "croppedAreaPixels wide_state = Some wide_area"
  "selectedDate wide_state = Some example_date"
  "loadImage example_browser ''data:image/jpeg;base64,AAAA'' = Some example_image"
  "getContext2d example_browser"
  by (simp_all add: wide_state_def example_state_def example_browser_def)

lemma wide_values:
  "area_x wide_area = 0" "area_y wide_area = 0"
  "area_width wide_area = 1000" "area_height wide_area = 500"
  "rotation wide_state = 0" "cropShape wide_state = Rect"
  by (simp_all add: wide_area_def wide_state_def)

lemma unrotated_guards:
  "imageSrc unrotated_state = Some ''data:image/jpeg;base64,AAAA''"
  "''data:image/jpeg;base64,AAAA'' \<noteq> []"
  "croppedAreaPixels unrotated_state = Some example_area"
  "selectedDate unrotated_state = Some example_date"
  "loadImage example_browser ''data:image/jpeg;base64,AAAA'' = Some example_image"
  "getContext2d example_browser"
  "cropShape unrotated_state = Round"
  "rotation unrotated_state = 0"
  by (simp_all add: unrotated_state_def example_state_def example_browser_def)

lemma zero_width_guards:
  "imageSrc zero_width_state = Some ''data:image/jpeg;base64,AAAA''"
  "''data:image/jpeg;base64,AAAA'' \<noteq> []"
  "croppedAreaPixels zero_width_state = Some zero_width_area"
  "selectedDate zero_width_state = Some example_date"
  "loadImage example_browser ''data:image/jpeg;base64,AAAA'' = Some example_image"
  "getContext2d example_browser"
  "cropShape zero_width_state = Round"
  "rotation zero_width_state = 90"
  "finalImage zero_width_state = Some (toDataURL ''image/png'' example_output)"
  by (simp_all add: zero_width_state_def example_state_def example_browser_def)

lemma toDataURL_pixels:
  "canvas_width c \<noteq> 0 \<Longrightarrow> canvas_height c \<noteq> 0 \<Longrightarrow> toDataURL type c = DataURL type c"
  by (simp add: toDataURL_def)

lemma toDataURL_empty:
  "canvas_width c = 0 \<or> canvas_height c = 0 \<Longrightarrow> toDataURL type c = EmptyDataURL"
  by (auto simp: toDataURL_def)

lemma uploaded_values:
  "imageSrc uploaded_state = Some ''data:image/jpeg;base64,AAAA''"
  "croppedAreaPixels uploaded_state = None"
  "selectedDate uploaded_state = Some example_date"
  "finalImage uploaded_state = None"
  by (simp_all add: uploaded_state_def onFileLoaded_def initial_state_def)

lemma example_values:
  "area_x example_area = 10" "area_y example_area = 20"
  "area_width example_area = 100" "area_height example_area = 80"
  "rotation example_state = 90" "cropShape example_state = Round"
  "formatDate example_date = ''2024/03/07''"
  "measureText_width example_browser f t = size_px f * real (length t) / 2"
  by (simp_all add: example_area_def example_state_def example_browser_def
      formatDate_def example_date_def padStart_def String_of_int_def
      string_of_nat.simps digit_char_def)

lemma rotation_about_centre:
  "to_canvas [Translate cx cy, Rotate a, Translate (- cx) (- cy)] (px, py) =
     (cx + (px - cx) * cos a - (py - cy) * sin a, cy + (px - cx) * sin a + (py - cy) * cos a)"
  by (simp add: to_canvas_def algebra_simps)

section \<open>Opacity after the clip\<close>

lemma clip_entry_alpha:
  "composite_entry env (px, py) dst
     (default_state\<lparr>globalCompositeOperation := destination_in\<rparr>,
      FillPath [([], Arc cx cy r 0 (pi * 2))]) =
   (if 0 \<le> r \<and> (px - cx)\<^sup>2 + (py - cy)\<^sup>2 \<le> r\<^sup>2 then dst else 0)"
  by (simp add: composite_entry_def default_state_def to_user_def)

lemma surface_alpha_snoc:
  "surface_alpha env (es @ [e]) p = composite_entry env p (surface_alpha env es p) e"
  by (simp add: surface_alpha_def)

lemma corner_outside_circle:
  fixes w h :: real
  assumes "0 < w" and "0 < h"
  shows "\<not> (0 - w / 2)\<^sup>2 + (0 - h / 2)\<^sup>2 \<le> (min w h / 2)\<^sup>2"
proof -
  have "0 < min w h" "min w h \<le> w" using assms by simp_all
  then have "(min w h)\<^sup>2 \<le> w\<^sup>2" by (simp add: power_mono)
  moreover have "0 < h\<^sup>2" using assms by simp
  ultimately have "(min w h)\<^sup>2 < w\<^sup>2 + h\<^sup>2" by linarith
  then show ?thesis by (simp add: power_divide)
qed

section \<open>The date token and the file name\<close>

lemma formatDate_shape:
  assumes "getMonth d < 12" and "getDate d \<le> 31"
  shows "formatDate d =
     String_of_int (getFullYear d) @
     [CHR ''/'', digit_char ((getMonth d + 1) div 10), digit_char ((getMonth d + 1) mod 10),
      CHR ''/'', digit_char (getDate d div 10), digit_char (getDate d mod 10)]"
  using assms by (simp add: formatDate_def padStart_two_digits)

lemma replace_slashes_formatDate:
  assumes "getMonth d < 12" and "getDate d \<le> 31"
  shows "replace_slashes (formatDate d) =
     String_of_int (getFullYear d) @
     [CHR ''-'', digit_char ((getMonth d + 1) div 10), digit_char ((getMonth d + 1) mod 10),
      CHR ''-'', digit_char (getDate d div 10), digit_char (getDate d mod 10)]"
proof -
  have "replace_slashes (String_of_int (getFullYear d)) = String_of_int (getFullYear d)"
    by (rule replace_slashes_id) (rule String_of_int_no_slash)
  moreover have "replace_slashes [CHR ''/'', a, b, CHR ''/'', c, e] = [CHR ''-'', a, b, CHR ''-'', c, e]"
    if "a \<noteq> CHR ''/''" "b \<noteq> CHR ''/''" "c \<noteq> CHR ''/''" "e \<noteq> CHR ''/''" for a b c e
    using that by (simp add: replace_slashes_def)
  ultimately show ?thesis
    by (simp add: formatDate_shape [OF assms] replace_slashes_append digit_char_not_slash)
qed

lemma replace_slashes_no_slash: "CHR ''/'' \<notin> set (replace_slashes str)"
  by (auto simp: replace_slashes_def)

text \<open>
  C6, as the code has it. For a date whose month index is below 12 and whose day is at
  most 31, \<open>formatDate\<close> yields the year in decimal, not padded, a slash, the month number
  (index plus one) as exactly two digits, a slash, and the day as exactly two digits, a
  leading zero filling a single digit. For a year from 1000 to 9999 that is four year
  digits and a text of ten characters, the token of fixed width. The 7th of March 2024
  gives \<open>2024/03/07\<close>.
\<close>

theorem formatDate_token:
  assumes "getMonth d < 12" and "getDate d \<le> 31"
  shows "formatDate d =
       String_of_int (getFullYear d) @
       [CHR ''/'', digit_char ((getMonth d + 1) div 10), digit_char ((getMonth d + 1) mod 10),
        CHR ''/'', digit_char (getDate d div 10), digit_char (getDate d mod 10)]
     \<and> (1000 \<le> getFullYear d \<and> getFullYear d \<le> 9999 \<longrightarrow>
          String_of_int (getFullYear d) =
            [digit_char (nat (getFullYear d) div 1000),
             digit_char (nat (getFullYear d) div 100 mod 10),
             digit_char (nat (getFullYear d) div 10 mod 10),
             digit_char (nat (getFullYear d) mod 10)]
          \<and> length (formatDate d) = 10)
     \<and> formatDate \<lparr>getFullYear = 2024, getMonth = 2, getDate = 7\<rparr> = ''2024/03/07''"
proof -
  have shape: "formatDate d =
       String_of_int (getFullYear d) @
       [CHR ''/'', digit_char ((getMonth d + 1) div 10), digit_char ((getMonth d + 1) mod 10),
        CHR ''/'', digit_char (getDate d div 10), digit_char (getDate d mod 10)]"
    by (rule formatDate_shape [OF assms])
  have year: "String_of_int (getFullYear d) =
            [digit_char (nat (getFullYear d) div 1000),
             digit_char (nat (getFullYear d) div 100 mod 10),
             digit_char (nat (getFullYear d) div 10 mod 10),
             digit_char (nat (getFullYear d) mod 10)]"
    if "1000 \<le> getFullYear d" "getFullYear d \<le> 9999"
  proof -
    have "1000 \<le> nat (getFullYear d)" "nat (getFullYear d) < 10000"
      using that by simp_all
    then have "string_of_nat (nat (getFullYear d)) =
            [digit_char (nat (getFullYear d) div 1000),
             digit_char (nat (getFullYear d) div 100 mod 10),
             digit_char (nat (getFullYear d) div 10 mod 10),
             digit_char (nat (getFullYear d) mod 10)]"
      by (rule string_of_nat_four)
    then show ?thesis
      using that by (simp add: String_of_int_def)
  qed
  have len: "length (formatDate d) = 10"
    if "1000 \<le> getFullYear d" "getFullYear d \<le> 9999"
    using year [OF that] shape by simp
  have ex: "formatDate \<lparr>getFullYear = 2024, getMonth = 2, getDate = 7\<rparr> = ''2024/03/07''"
    by (simp add: formatDate_def padStart_def String_of_int_def string_of_nat.simps
        digit_char_def)
  from shape year len ex show ?thesis by blast
qed

theorem formatDate_token_witness:
  "getMonth example_date < 12 \<and> getDate example_date \<le> 31
   \<and> 1000 \<le> getFullYear example_date \<and> getFullYear example_date \<le> 9999
   \<and> formatDate example_date = ''2024/03/07''
   \<and> length (formatDate example_date) = 10"
proof -
  have m: "getMonth example_date < 12" and d: "getDate example_date \<le> 31"
    by (simp_all add: example_date_def)
  have y: "1000 \<le> getFullYear example_date \<and> getFullYear example_date \<le> 9999"
    by (simp add: example_date_def)
  have "formatDate example_date = ''2024/03/07''"
    using formatDate_token [OF m d] y by (simp add: example_date_def digit_char_def)
  moreover have "length (formatDate example_date) = 10"
    using formatDate_token [OF m d] y by blast
  ultimately show ?thesis using m d y by blast
qed

text \<open>
  C6, as stated, fails for a year of fewer than four digits: the 1st of January 999 is
  formatted as \<open>999/01/01\<close>, nine characters with a three-digit year, not the
  four-digit \<open>0999/01/01\<close>.
\<close>

theorem formatDate_year_counterexample:
  "formatDate \<lparr>getFullYear = 999, getMonth = 0, getDate = 1\<rparr> = ''999/01/01''
   \<and> length (formatDate \<lparr>getFullYear = 999, getMonth = 0, getDate = 1\<rparr>) = 9
   \<and> formatDate \<lparr>getFullYear = 999, getMonth = 0, getDate = 1\<rparr> \<noteq> ''0999/01/01''"
  by (simp add: formatDate_def padStart_def String_of_int_def string_of_nat.simps
      digit_char_def)

text \<open>
  C10. While a generated result is displayed (the image source is set and \<open>finalImage\<close>
  holds a result), clearing the date selection leaves the result link in place, still
  pointing to that result, with the file name \<open>photo_edited.png\<close>.
\<close>

theorem download_name_without_date:
  assumes "truthy (imageSrc s)" and "finalImage s = Some url"
  shows "resultLink (setSelectedDate None s) = Some \<lparr>href = url, download = ''photo_edited.png''\<rparr>"
  using assms by (simp add: resultLink_def setSelectedDate_def downloadName_def)

theorem download_name_without_date_witness:
  "truthy (imageSrc zero_width_state)
   \<and> finalImage zero_width_state = Some (toDataURL ''image/png'' example_output)
   \<and> resultLink (setSelectedDate None zero_width_state) =
       Some \<lparr>href = toDataURL ''image/png'' example_output, download = ''photo_edited.png''\<rparr>"
proof -
  have t: "truthy (imageSrc zero_width_state)"
    by (simp add: zero_width_state_def example_state_def truthy_def)
  have f: "finalImage zero_width_state = Some (toDataURL ''image/png'' example_output)"
    by (simp add: zero_width_state_def)
  from download_name_without_date [OF t f] t f show ?thesis by blast
qed


section \<open>The composite\<close>

text \<open>
  In the theorems of this section a call of \<open>createFinalImage\<close> composes an image when the
  image source is a non-empty string that the browser loads, a crop rectangle and a date
  are selected, and a 2D context is available. The theorems then state that the call
  completes, that \<open>finalImage\<close> holds what \<open>toDataURL\<close> returns for the output surface,
  and what that surface holds.
\<close>

text \<open>
  C3. Whenever a call composes an image, whatever the rotation angle and the crop shape,
  the output surface has the width and the height of the crop rectangle, and the crop
  rectangle of the source is drawn onto the whole surface at its own size (source and
  destination extents are equal), so nothing is resampled.
\<close>

theorem output_canvas_size:
  assumes "imageSrc s = Some src" and "src \<noteq> []"
    and "croppedAreaPixels s = Some area" and "selectedDate s = Some date"
    and "loadImage env src = Some img" and "getContext2d env"
  shows "\<exists>s' out st rest.
     createFinalImage env s = Some s'
     \<and> finalImage s' = Some (toDataURL ''image/png'' out)
     \<and> canvas_width out = area_width area
     \<and> canvas_height out = area_height area
     \<and> painted (ctx out) =
         (st, DrawImage img (area_x area) (area_y area) (area_width area) (area_height area)
                0 0 (canvas_width out) (canvas_height out)) # rest"
proof -
  let ?out = "drawFinalImage env img area (rotation s) (cropShape s) date"
  let ?s' = "s\<lparr>finalImage := Some (toDataURL ''image/png'' ?out)\<rparr>"
  have "createFinalImage env s = Some ?s'"
    by (rule createFinalImage_completes [OF assms])
  moreover have "finalImage ?s' = Some (toDataURL ''image/png'' ?out)"
    by simp
  moreover have "\<exists>st rest. painted (ctx ?out) =
         (st, DrawImage img (area_x area) (area_y area) (area_width area) (area_height area)
                0 0 (canvas_width ?out) (canvas_height ?out)) # rest"
    by (simp add: painted_drawFinalImage [OF refl refl refl refl refl refl] size_drawFinalImage)
  ultimately show ?thesis
    using size_drawFinalImage [of env img area "rotation s" "cropShape s" date] by blast
qed

theorem output_canvas_size_witness:
  "imageSrc example_state = Some ''data:image/jpeg;base64,AAAA''
   \<and> croppedAreaPixels example_state = Some example_area
   \<and> selectedDate example_state = Some example_date
   \<and> loadImage example_browser ''data:image/jpeg;base64,AAAA'' = Some example_image
   \<and> getContext2d example_browser
   \<and> (\<exists>s' out st rest.
     createFinalImage example_browser example_state = Some s'
     \<and> finalImage s' = Some (toDataURL ''image/png'' out)
     \<and> canvas_width out = 100
     \<and> canvas_height out = 80
     \<and> painted (ctx out) =
         (st, DrawImage example_image 10 20 100 80 0 0 (canvas_width out) (canvas_height out)) # rest)"
proof -
  have g: "area_x example_area = 10" "area_y example_area = 20"
    "area_width example_area = 100" "area_height example_area = 80"
    by (simp_all add: example_area_def)
  show ?thesis
    using output_canvas_size [OF example_guards] example_guards unfolding g by blast
qed

text \<open>
  C7. Whenever a call composes an image, the first thing painted is the crop rectangle of
  the source, unrotated as a rectangle, under the transformation built by translating to
  the surface centre, rotating by the rotation angle times pi over 180, and translating
  back: a rotation about the centre, which maps the centre to itself. Everything painted
  afterwards (the circular clip when the shape is round, then the label box, then the
  label text) is painted under the identity transformation, which moves no point.
\<close>

theorem rotation_only_on_image:
  assumes "imageSrc s = Some src" and "src \<noteq> []"
    and "croppedAreaPixels s = Some area" and "selectedDate s = Some date"
    and "loadImage env src = Some img" and "getContext2d env"
  defines "w \<equiv> area_width area" and "h \<equiv> area_height area"
    and "a \<equiv> (rotation s * pi) / 180"
    and "fs \<equiv> min (area_width area * 0.05) 32"
    and "p \<equiv> min (area_width area * 0.05) 32 * 0.75"
    and "tw \<equiv> measureText_width env
           \<lparr>bold = True, size_px = min (area_width area * 0.05) 32, family = ''Arial''\<rparr>
           (formatDate date)"
  shows "\<exists>s' out st rest.
     createFinalImage env s = Some s'
     \<and> finalImage s' = Some (toDataURL ''image/png'' out)
     \<and> canvas_width out = w \<and> canvas_height out = h
     \<and> painted (ctx out) = (st, DrawImage img (area_x area) (area_y area) w h 0 0 w h) # rest
     \<and> transform st = [Translate (w / 2) (h / 2), Rotate a, Translate (- w / 2) (- h / 2)]
     \<and> (\<forall>px py. to_canvas (transform st) (px, py) =
           (w / 2 + (px - w / 2) * cos a - (py - h / 2) * sin a,
            h / 2 + (px - w / 2) * sin a + (py - h / 2) * cos a))
     \<and> to_canvas (transform st) (w / 2, h / 2) = (w / 2, h / 2)
     \<and> map snd rest =
          (if cropShape s = Round
           then [FillPath [([], Arc (w / 2) (h / 2) (min w h / 2) 0 (pi * 2))]] else []) @
          [FillRect p (h - (fs + p * 2)) (tw + p * 2) (fs + p * 2),
           FillText (formatDate date) (p * 2) (h - p)]
     \<and> map (\<lambda>e. transform (fst e)) rest = replicate (length rest) []
     \<and> (\<forall>q. to_canvas [] q = q)"
proof -
  let ?out = "drawFinalImage env img area (rotation s) (cropShape s) date"
  let ?s' = "s\<lparr>finalImage := Some (toDataURL ''image/png'' ?out)\<rparr>"
  let ?st = "default_state\<lparr>transform :=
          [Translate (w / 2) (h / 2), Rotate a, Translate (- w / 2) (- h / 2)]\<rparr>"
  obtain rest where pt: "painted (ctx ?out) =
      (?st, DrawImage img (area_x area) (area_y area) w h 0 0 w h) # rest"
    and r: "map snd rest =
          (if cropShape s = Round
           then [FillPath [([], Arc (w / 2) (h / 2) (min w h / 2) 0 (pi * 2))]] else []) @
          [FillRect p (h - (fs + p * 2)) (tw + p * 2) (fs + p * 2),
           FillText (formatDate date) (p * 2) (h - p)]"
    and t: "map (\<lambda>e. transform (fst e)) rest = replicate (length rest) []"
    unfolding w_def h_def a_def fs_def p_def tw_def
    by (simp add: painted_drawFinalImage [OF refl refl refl refl refl refl] default_state_def)
  have c: "createFinalImage env s = Some ?s'"
    by (rule createFinalImage_completes [OF assms(1-6)])
  have f: "finalImage ?s' = Some (toDataURL ''image/png'' ?out)"
    by simp
  have sz: "canvas_width ?out = w" "canvas_height ?out = h"
    by (simp_all add: size_drawFinalImage w_def h_def)
  have tr: "transform ?st = [Translate (w / 2) (h / 2), Rotate a, Translate (- w / 2) (- h / 2)]"
    by simp
  have rot: "\<forall>px py. to_canvas (transform ?st) (px, py) =
           (w / 2 + (px - w / 2) * cos a - (py - h / 2) * sin a,
            h / 2 + (px - w / 2) * sin a + (py - h / 2) * cos a)"
    using rotation_about_centre [of "w / 2" "h / 2" a] by simp
  have centre: "to_canvas (transform ?st) (w / 2, h / 2) = (w / 2, h / 2)"
    using rotation_about_centre [of "w / 2" "h / 2" a "w / 2" "h / 2"] by simp
  have idt: "\<forall>q. to_canvas [] q = q"
    by (simp add: to_canvas_def)
  from c f sz pt tr rot centre r t idt show ?thesis by blast
qed

theorem rotation_only_on_image_witness:
  "imageSrc example_state = Some ''data:image/jpeg;base64,AAAA''
   \<and> croppedAreaPixels example_state = Some example_area
   \<and> selectedDate example_state = Some example_date
   \<and> loadImage example_browser ''data:image/jpeg;base64,AAAA'' = Some example_image
   \<and> getContext2d example_browser
   \<and> (\<exists>s' out st rest.
     createFinalImage example_browser example_state = Some s'
     \<and> finalImage s' = Some (toDataURL ''image/png'' out)
     \<and> painted (ctx out) = (st, DrawImage example_image 10 20 100 80 0 0 100 80) # rest
     \<and> transform st = [Translate 50 40, Rotate (pi / 2), Translate (- 50) (- 40)]
     \<and> to_canvas (transform st) (50, 40) = (50, 40)
     \<and> to_canvas (transform st) (100, 40) = (50, 90)
     \<and> map snd rest =
          [FillPath [([], Arc 50 40 40 0 (pi * 2))],
           FillRect 3.75 67.5 32.5 12.5,
           FillText ''2024/03/07'' 7.5 76.25]
     \<and> map (\<lambda>e. transform (fst e)) rest = [[], [], []])"
proof -
  from rotation_only_on_image [OF example_guards, unfolded example_values, simplified]
  obtain s' out st rest where
    c: "createFinalImage example_browser example_state = Some s'" and
    f: "finalImage s' = Some (toDataURL ''image/png'' out)" and
    pt: "painted (ctx out) = (st, DrawImage example_image 10 20 100 80 0 0 100 80) # rest" and
    tr: "transform st = [Translate 50 40, Rotate (pi / 2), Translate (- 50) (- 40)]" and
    rot: "\<forall>px py. to_canvas (transform st) (px, py) = (90 - py, px - 10)" and
    r: "map snd rest =
          [FillPath [([], Arc 50 40 40 0 (pi * 2))],
           FillRect (15 / 4) (135 / 2) (65 / 2) (25 / 2),
           FillText ''2024/03/07'' (15 / 2) (305 / 4)]" and
    t: "map (\<lambda>e. transform (fst e)) rest = replicate (length rest) []"
    by (elim exE conjE) (rule that, assumption+)
  from r have "length (map snd rest) = 3" by simp
  then have len: "length rest = Suc (Suc (Suc 0))" by simp
  have t': "map (\<lambda>e. transform (fst e)) rest = [[], [], []]"
    using t unfolding len by simp
  have r': "map snd rest =
          [FillPath [([], Arc 50 40 40 0 (pi * 2))],
           FillRect 3.75 67.5 32.5 12.5,
           FillText ''2024/03/07'' 7.5 76.25]"
    using r by simp
  have q: "to_canvas (transform st) (50, 40) = (50, 40)"
    "to_canvas (transform st) (100, 40) = (50, 90)"
    using rot by simp_all
  show ?thesis
    using example_guards c f pt tr q r' t' by (intro conjI exI) assumption+
qed


text \<open>
  C5. Whenever a call composes an image, the label box and the label text are painted
  with the font set to bold Arial at \<open>min (w * 0.05) 32\<close> pixels, where \<open>w\<close> is the
  width of the output surface, and the padding (the left coordinate of the box, and half
  the left coordinate of the text) is that font size times 0.75. An output width of 100
  gives a font size of 5, an output width of 1000 gives 32.
\<close>

theorem label_font_scaling:
  assumes "imageSrc s = Some src" and "src \<noteq> []"
    and "croppedAreaPixels s = Some area" and "selectedDate s = Some date"
    and "loadImage env src = Some img" and "getContext2d env"
  shows "\<exists>s' out pre bst tst top bw bh t ty.
     createFinalImage env s = Some s'
     \<and> finalImage s' = Some (toDataURL ''image/png'' out)
     \<and> canvas_width out = area_width area
     \<and> painted (ctx out) =
          pre @ [(bst, FillRect (size_px (font bst) * 0.75) top bw bh),
                 (tst, FillText t (size_px (font tst) * 0.75 * 2) ty)]
     \<and> font bst = \<lparr>bold = True, size_px = min (canvas_width out * 0.05) 32, family = ''Arial''\<rparr>
     \<and> font tst = \<lparr>bold = True, size_px = min (canvas_width out * 0.05) 32, family = ''Arial''\<rparr>
     \<and> (canvas_width out = 100 \<longrightarrow> size_px (font tst) = 5)
     \<and> (canvas_width out = 1000 \<longrightarrow> size_px (font tst) = 32)"
proof -
  let ?out = "drawFinalImage env img area (rotation s) (cropShape s) date"
  let ?s' = "s\<lparr>finalImage := Some (toDataURL ''image/png'' ?out)\<rparr>"
  let ?w = "area_width area" and ?h = "area_height area"
  let ?fs = "min (?w * 0.05) 32"
  let ?label = "\<lparr>bold = True, size_px = ?fs, family = ''Arial''\<rparr>"
  let ?tw = "measureText_width env ?label (formatDate date)"
  let ?bst = "default_state\<lparr>font := ?label, fillStyle := Rgba 0 0 0 0.7\<rparr>"
  let ?tst = "default_state\<lparr>font := ?label, fillStyle := White\<rparr>"
  let ?pre = "[(default_state\<lparr>transform :=
          [Translate (?w / 2) (?h / 2), Rotate ((rotation s * pi) / 180),
           Translate (- ?w / 2) (- ?h / 2)]\<rparr>,
       DrawImage img (area_x area) (area_y area) ?w ?h 0 0 ?w ?h)] @
     (if cropShape s = Round then
        [(default_state\<lparr>globalCompositeOperation := destination_in\<rparr>,
          FillPath [([], Arc (?w / 2) (?h / 2) (min ?w ?h / 2) 0 (pi * 2))])]
      else [])"
  have c: "createFinalImage env s = Some ?s'"
    by (rule createFinalImage_completes [OF assms])
  have f: "finalImage ?s' = Some (toDataURL ''image/png'' ?out)"
    by simp
  have sz: "canvas_width ?out = ?w"
    by (rule size_drawFinalImage)
  have fb: "font ?bst = ?label" and ft: "font ?tst = ?label"
    by (simp_all add: default_state_def)
  have "painted (ctx ?out) =
          ?pre @ [(?bst, FillRect (?fs * 0.75) (?h - (?fs + ?fs * 0.75 * 2))
                     (?tw + ?fs * 0.75 * 2) (?fs + ?fs * 0.75 * 2)),
                  (?tst, FillText (formatDate date) (?fs * 0.75 * 2) (?h - ?fs * 0.75))]"
    by (simp add: painted_drawFinalImage [OF refl refl refl refl refl refl])
  then have pt: "painted (ctx ?out) =
          ?pre @ [(?bst, FillRect (size_px (font ?bst) * 0.75) (?h - (?fs + ?fs * 0.75 * 2))
                     (?tw + ?fs * 0.75 * 2) (?fs + ?fs * 0.75 * 2)),
                  (?tst, FillText (formatDate date) (size_px (font ?tst) * 0.75 * 2)
                     (?h - ?fs * 0.75))]"
    unfolding fb ft by simp
  have fb': "font ?bst = \<lparr>bold = True, size_px = min (canvas_width ?out * 0.05) 32, family = ''Arial''\<rparr>"
    and ft': "font ?tst = \<lparr>bold = True, size_px = min (canvas_width ?out * 0.05) 32, family = ''Arial''\<rparr>"
    unfolding sz by (simp_all add: default_state_def)
  have e1: "canvas_width ?out = 100 \<longrightarrow> size_px (font ?tst) = 5"
    and e2: "canvas_width ?out = 1000 \<longrightarrow> size_px (font ?tst) = 32"
    unfolding sz by (simp_all add: default_state_def)
  from c f sz pt fb' ft' e1 e2 show ?thesis
    by (intro exI conjI) assumption+
qed

theorem label_font_scaling_witness:
  "imageSrc example_state = Some ''data:image/jpeg;base64,AAAA''
   \<and> croppedAreaPixels example_state = Some example_area
   \<and> croppedAreaPixels wide_state = Some wide_area
   \<and> selectedDate example_state = Some example_date
   \<and> loadImage example_browser ''data:image/jpeg;base64,AAAA'' = Some example_image
   \<and> getContext2d example_browser
   \<and> (\<exists>s' out pre bst tst top bw bh t ty.
         createFinalImage example_browser example_state = Some s'
         \<and> finalImage s' = Some (toDataURL ''image/png'' out)
         \<and> canvas_width out = 100
         \<and> painted (ctx out) =
              pre @ [(bst, FillRect 3.75 top bw bh), (tst, FillText t 7.5 ty)]
         \<and> font bst = \<lparr>bold = True, size_px = 5, family = ''Arial''\<rparr>
         \<and> font tst = \<lparr>bold = True, size_px = 5, family = ''Arial''\<rparr>)
   \<and> (\<exists>s' out pre bst tst top bw bh t ty.
         createFinalImage example_browser wide_state = Some s'
         \<and> finalImage s' = Some (toDataURL ''image/png'' out)
         \<and> canvas_width out = 1000
         \<and> painted (ctx out) =
              pre @ [(bst, FillRect 24 top bw bh), (tst, FillText t 48 ty)]
         \<and> font bst = \<lparr>bold = True, size_px = 32, family = ''Arial''\<rparr>
         \<and> font tst = \<lparr>bold = True, size_px = 32, family = ''Arial''\<rparr>)"
proof -
  have small: "\<exists>s' out pre bst tst top bw bh t ty.
         createFinalImage example_browser example_state = Some s'
         \<and> finalImage s' = Some (toDataURL ''image/png'' out)
         \<and> canvas_width out = 100
         \<and> painted (ctx out) =
              pre @ [(bst, FillRect 3.75 top bw bh), (tst, FillText t 7.5 ty)]
         \<and> font bst = \<lparr>bold = True, size_px = 5, family = ''Arial''\<rparr>
         \<and> font tst = \<lparr>bold = True, size_px = 5, family = ''Arial''\<rparr>"
  proof -
    from label_font_scaling [OF example_guards, unfolded example_values]
    obtain s' out pre bst tst top bw bh t ty where
      c: "createFinalImage example_browser example_state = Some s'" and
      f: "finalImage s' = Some (toDataURL ''image/png'' out)" and
      w: "canvas_width out = 100" and
      pt: "painted (ctx out) =
          pre @ [(bst, FillRect (size_px (font bst) * 0.75) top bw bh),
                 (tst, FillText t (size_px (font tst) * 0.75 * 2) ty)]" and
      fb: "font bst = \<lparr>bold = True, size_px = min (canvas_width out * 0.05) 32, family = ''Arial''\<rparr>" and
      ft: "font tst = \<lparr>bold = True, size_px = min (canvas_width out * 0.05) 32, family = ''Arial''\<rparr>" and
      e: "canvas_width out = 100 \<longrightarrow> size_px (font tst) = 5"
      by (elim exE conjE) (rule that, assumption+)
    have fb': "font bst = \<lparr>bold = True, size_px = 5, family = ''Arial''\<rparr>"
      and ft': "font tst = \<lparr>bold = True, size_px = 5, family = ''Arial''\<rparr>"
      using fb ft w by simp_all
    have pt': "painted (ctx out) =
              pre @ [(bst, FillRect 3.75 top bw bh), (tst, FillText t 7.5 ty)]"
      using pt unfolding fb' ft' by simp
    from c f w pt' fb' ft' show ?thesis
      by (intro exI conjI) assumption+
  qed
  have wide: "\<exists>s' out pre bst tst top bw bh t ty.
         createFinalImage example_browser wide_state = Some s'
         \<and> finalImage s' = Some (toDataURL ''image/png'' out)
         \<and> canvas_width out = 1000
         \<and> painted (ctx out) =
              pre @ [(bst, FillRect 24 top bw bh), (tst, FillText t 48 ty)]
         \<and> font bst = \<lparr>bold = True, size_px = 32, family = ''Arial''\<rparr>
         \<and> font tst = \<lparr>bold = True, size_px = 32, family = ''Arial''\<rparr>"
  proof -
    from label_font_scaling [OF wide_guards, unfolded wide_values]
    obtain s' out pre bst tst top bw bh t ty where
      c: "createFinalImage example_browser wide_state = Some s'" and
      f: "finalImage s' = Some (toDataURL ''image/png'' out)" and
      w: "canvas_width out = 1000" and
      pt: "painted (ctx out) =
          pre @ [(bst, FillRect (size_px (font bst) * 0.75) top bw bh),
                 (tst, FillText t (size_px (font tst) * 0.75 * 2) ty)]" and
      fb: "font bst = \<lparr>bold = True, size_px = min (canvas_width out * 0.05) 32, family = ''Arial''\<rparr>" and
      ft: "font tst = \<lparr>bold = True, size_px = min (canvas_width out * 0.05) 32, family = ''Arial''\<rparr>" and
      e: "canvas_width out = 1000 \<longrightarrow> size_px (font tst) = 32"
      by (elim exE conjE) (rule that, assumption+)
    have fb': "font bst = \<lparr>bold = True, size_px = 32, family = ''Arial''\<rparr>"
      and ft': "font tst = \<lparr>bold = True, size_px = 32, family = ''Arial''\<rparr>"
      using fb ft w by simp_all
    have pt': "painted (ctx out) =
              pre @ [(bst, FillRect 24 top bw bh), (tst, FillText t 48 ty)]"
      using pt unfolding fb' ft' by simp
    from c f w pt' fb' ft' show ?thesis
      by (intro exI conjI) assumption+
  qed
  from example_guards wide_guards(3) small wide show ?thesis
    by (intro conjI) assumption+
qed


text \<open>
  C2, as the code has it. Whenever a call composes an image, exactly one rectangle is
  filled and one text is drawn. With \<open>fs\<close> the font size, \<open>p\<close> the padding and \<open>tw\<close>
  the measured width of the date text: the box starts \<open>p\<close> from the left edge, is
  \<open>tw + 2p\<close> wide and \<open>fs + 2p\<close> high, and its top is at the surface height minus
  \<open>fs + 2p\<close>, so that its lower edge is the bottom edge of the surface: no gap is left
  below it. The text is anchored \<open>2p\<close> from the left edge with its baseline \<open>p\<close> above
  the bottom edge; the anchor is \<open>p\<close> inside the left edge of the box, the measured
  extent of the text ends \<open>p\<close> before its right edge, and the baseline lies \<open>p\<close> above
  its lower edge and \<open>fs + p\<close> below its upper edge. On a surface of non-negative width
  \<open>fs\<close> and \<open>p\<close> are non-negative.
\<close>

theorem label_box_geometry:
  assumes "imageSrc s = Some src" and "src \<noteq> []"
    and "croppedAreaPixels s = Some area" and "selectedDate s = Some date"
    and "loadImage env src = Some img" and "getContext2d env"
  defines "fs \<equiv> min (area_width area * 0.05) 32"
    and "p \<equiv> min (area_width area * 0.05) 32 * 0.75"
    and "tw \<equiv> measureText_width env
           \<lparr>bold = True, size_px = min (area_width area * 0.05) 32, family = ''Arial''\<rparr>
           (formatDate date)"
  shows "\<exists>s' out left top bw bh t tx ty.
     createFinalImage env s = Some s'
     \<and> finalImage s' = Some (toDataURL ''image/png'' out)
     \<and> canvas_width out = area_width area
     \<and> canvas_height out = area_height area
     \<and> filled_rects out = [(left, top, bw, bh)]
     \<and> drawn_texts out = [(t, tx, ty)]
     \<and> left = p
     \<and> top = canvas_height out - (fs + p * 2)
     \<and> bw = tw + p * 2
     \<and> bh = fs + p * 2
     \<and> gap_below out (left, top, bw, bh) = 0
     \<and> t = formatDate date
     \<and> tx = p * 2
     \<and> ty = canvas_height out - p
     \<and> tx - left = p
     \<and> (left + bw) - (tx + tw) = p
     \<and> (top + bh) - ty = p
     \<and> ty - top = fs + p
     \<and> (0 \<le> canvas_width out \<longrightarrow> 0 \<le> fs \<and> 0 \<le> p)"
proof -
  let ?out = "drawFinalImage env img area (rotation s) (cropShape s) date"
  let ?s' = "s\<lparr>finalImage := Some (toDataURL ''image/png'' ?out)\<rparr>"
  let ?H = "canvas_height ?out"
  have c: "createFinalImage env s = Some ?s'"
    by (rule createFinalImage_completes [OF assms(1-6)])
  have f: "finalImage ?s' = Some (toDataURL ''image/png'' ?out)"
    by simp
  have sz: "canvas_width ?out = area_width area" "?H = area_height area"
    by (rule size_drawFinalImage)+
  have fr: "filled_rects ?out = [(p, ?H - (fs + p * 2), tw + p * 2, fs + p * 2)]"
    unfolding fs_def p_def tw_def sz
    by (simp add: observers_drawFinalImage [OF refl refl refl refl refl refl])
  have dt: "drawn_texts ?out = [(formatDate date, p * 2, ?H - p)]"
    unfolding fs_def p_def tw_def sz
    by (simp add: observers_drawFinalImage [OF refl refl refl refl refl refl])
  have gap: "gap_below ?out (p, ?H - (fs + p * 2), tw + p * 2, fs + p * 2) = 0"
    by simp
  have rel: "p * 2 - p = p" "(p + (tw + p * 2)) - (p * 2 + tw) = p"
    "(?H - (fs + p * 2) + (fs + p * 2)) - (?H - p) = p"
    "(?H - p) - (?H - (fs + p * 2)) = fs + p"
    by simp_all
  have pos: "0 \<le> canvas_width ?out \<longrightarrow> 0 \<le> fs \<and> 0 \<le> p"
    unfolding sz fs_def p_def by simp
  from c f sz fr dt gap rel pos show ?thesis
    by (intro exI conjI) (assumption | rule refl)+
qed

theorem label_box_geometry_witness:
  "imageSrc example_state = Some ''data:image/jpeg;base64,AAAA''
   \<and> croppedAreaPixels example_state = Some example_area
   \<and> selectedDate example_state = Some example_date
   \<and> loadImage example_browser ''data:image/jpeg;base64,AAAA'' = Some example_image
   \<and> getContext2d example_browser
   \<and> (\<exists>s' out.
         createFinalImage example_browser example_state = Some s'
         \<and> finalImage s' = Some (toDataURL ''image/png'' out)
         \<and> canvas_width out = 100
         \<and> canvas_height out = 80
         \<and> filled_rects out = [(3.75, 67.5, 32.5, 12.5)]
         \<and> drawn_texts out = [(''2024/03/07'', 7.5, 76.25)]
         \<and> gap_below out (3.75, 67.5, 32.5, 12.5) = 0)"
proof -
  from label_box_geometry [OF example_guards, unfolded example_values]
  obtain s' out left top bw bh t tx ty where
    c: "createFinalImage example_browser example_state = Some s'" and
    f: "finalImage s' = Some (toDataURL ''image/png'' out)" and
    w: "canvas_width out = 100" and
    h: "canvas_height out = 80" and
    fr: "filled_rects out = [(left, top, bw, bh)]" and
    dt: "drawn_texts out = [(t, tx, ty)]" and
    v: "left = min (100 * 0.05) 32 * 0.75"
       "top = canvas_height out - (min (100 * 0.05) 32 + min (100 * 0.05) 32 * 0.75 * 2)"
       "bw = size_px \<lparr>bold = True, size_px = min (100 * 0.05) 32, family = ''Arial''\<rparr> *
               real (length ''2024/03/07'') / 2 + min (100 * 0.05) 32 * 0.75 * 2"
       "bh = min (100 * 0.05) 32 + min (100 * 0.05) 32 * 0.75 * 2"
       "gap_below out (left, top, bw, bh) = 0"
       "t = ''2024/03/07''"
       "tx = min (100 * 0.05) 32 * 0.75 * 2"
       "ty = canvas_height out - min (100 * 0.05) 32 * 0.75"
    by (elim exE conjE) (rule that, assumption+)
  have fr': "filled_rects out = [(3.75, 67.5, 32.5, 12.5)]"
    using fr unfolding v(1-4) h by simp
  have dt': "drawn_texts out = [(''2024/03/07'', 7.5, 76.25)]"
    using dt unfolding v h by simp
  have g: "gap_below out (3.75, 67.5, 32.5, 12.5) = 0"
    using h by simp
  from example_guards c f w h fr' dt' g show ?thesis
    by (intro exI conjI) assumption+
qed

text \<open>
  C2, as stated, fails: for a crop rectangle of 100 by 80 the padding is 3.75, and the box
  (left 3.75, top 67.5, width 32.5, height 12.5) reaches down to 80, the bottom edge of
  the surface. The gap below the box is 0, not the padding.
\<close>

theorem label_box_bottom_counterexample:
  "createFinalImage example_browser example_state =
     Some (example_state\<lparr>finalImage := Some (toDataURL ''image/png'' example_output)\<rparr>)
   \<and> canvas_width example_output = 100
   \<and> canvas_height example_output = 80
   \<and> filled_rects example_output = [(3.75, 67.5, 32.5, 12.5)]
   \<and> map (gap_below example_output) (filled_rects example_output) = [0]
   \<and> map (gap_below example_output) (filled_rects example_output) \<noteq> [3.75]"
proof -
  have c: "createFinalImage example_browser example_state =
     Some (example_state\<lparr>finalImage := Some (toDataURL ''image/png'' example_output)\<rparr>)"
    using createFinalImage_completes [OF example_guards]
    by (simp add: example_output_def toDataURL_def example_values)
  have sz: "canvas_width example_output = 100" "canvas_height example_output = 80"
    by (simp_all add: example_output_def size_drawFinalImage example_values)
  have fr: "filled_rects example_output = [(3.75, 67.5, 32.5, 12.5)]"
    by (simp add: example_output_def observers_drawFinalImage [OF refl refl refl refl refl refl]
        example_values)
  have g: "map (gap_below example_output) (filled_rects example_output) = [0]"
    unfolding fr by (simp add: sz)
  from c sz fr g show ?thesis by simp
qed


text \<open>
  C4. Whenever a call composes an image with the round shape, four things are painted, in
  this order: the image, the clip, the label box, the label text. The clip is the fill of
  a full circle centred at the centre of the output surface with radius
  \<open>min w h / 2\<close>, painted under the identity transformation with the opaque default
  fill style and the compositing operation \<open>destination-in\<close>. Once the clip is painted
  (and before the label is), the opacity at every point outside the circle is zero and
  the opacity at every point inside it is what the drawn image left there. On a surface
  of positive width and height the corner \<open>(0, 0)\<close> lies outside and is fully
  transparent; the centre lies inside and keeps the opacity of the drawn image.
\<close>

theorem circular_clip:
  assumes "imageSrc s = Some src" and "src \<noteq> []"
    and "croppedAreaPixels s = Some area" and "selectedDate s = Some date"
    and "loadImage env src = Some img" and "getContext2d env"
    and "cropShape s = Round"
  defines "w \<equiv> area_width area" and "h \<equiv> area_height area"
  shows "\<exists>s' out drawn clip bst left top bw bh tst t tx ty.
     createFinalImage env s = Some s'
     \<and> finalImage s' = Some (toDataURL ''image/png'' out)
     \<and> canvas_width out = w \<and> canvas_height out = h
     \<and> painted (ctx out) =
          [drawn, clip, (bst, FillRect left top bw bh), (tst, FillText t tx ty)]
     \<and> snd drawn = DrawImage img (area_x area) (area_y area) w h 0 0 w h
     \<and> globalCompositeOperation (fst drawn) = source_over
     \<and> transform (fst drawn) =
          [Translate (w / 2) (h / 2), Rotate ((rotation s * pi) / 180),
           Translate (- w / 2) (- h / 2)]
     \<and> snd clip = FillPath [([], Arc (w / 2) (h / 2) (min w h / 2) 0 (pi * 2))]
     \<and> globalCompositeOperation (fst clip) = destination_in
     \<and> transform (fst clip) = []
     \<and> fillStyle (fst clip) = Black
     \<and> (\<forall>px py. surface_alpha env [drawn, clip] (px, py) =
           (if 0 \<le> min w h / 2 \<and> (px - w / 2)\<^sup>2 + (py - h / 2)\<^sup>2 \<le> (min w h / 2)\<^sup>2
            then surface_alpha env [drawn] (px, py) else 0))
     \<and> (0 < w \<and> 0 < h \<longrightarrow> surface_alpha env [drawn, clip] (0, 0) = 0)
     \<and> (0 \<le> w \<and> 0 \<le> h \<longrightarrow>
           surface_alpha env [drawn, clip] (w / 2, h / 2) = surface_alpha env [drawn] (w / 2, h / 2))"
proof -
  let ?out = "drawFinalImage env img area (rotation s) (cropShape s) date"
  let ?s' = "s\<lparr>finalImage := Some (toDataURL ''image/png'' ?out)\<rparr>"
  let ?fs = "min (w * 0.05) 32"
  let ?label = "\<lparr>bold = True, size_px = ?fs, family = ''Arial''\<rparr>"
  let ?tw = "measureText_width env ?label (formatDate date)"
  let ?drawn = "(default_state\<lparr>transform :=
          [Translate (w / 2) (h / 2), Rotate ((rotation s * pi) / 180),
           Translate (- w / 2) (- h / 2)]\<rparr>,
       DrawImage img (area_x area) (area_y area) w h 0 0 w h)"
  let ?clip = "(default_state\<lparr>globalCompositeOperation := destination_in\<rparr>,
          FillPath [([], Arc (w / 2) (h / 2) (min w h / 2) 0 (pi * 2))])"
  let ?box = "(default_state\<lparr>font := ?label, fillStyle := Rgba 0 0 0 0.7\<rparr>,
       FillRect (?fs * 0.75) (h - (?fs + ?fs * 0.75 * 2)) (?tw + ?fs * 0.75 * 2)
         (?fs + ?fs * 0.75 * 2))"
  let ?text = "(default_state\<lparr>font := ?label, fillStyle := White\<rparr>,
       FillText (formatDate date) (?fs * 0.75 * 2) (h - ?fs * 0.75))"
  have c: "createFinalImage env s = Some ?s'"
    by (rule createFinalImage_completes [OF assms(1-6)])
  have f: "finalImage ?s' = Some (toDataURL ''image/png'' ?out)"
    by simp
  have sz: "canvas_width ?out = w" "canvas_height ?out = h"
    unfolding w_def h_def by (rule size_drawFinalImage)+
  have pt: "painted (ctx ?out) = [?drawn, ?clip, ?box, ?text]"
    unfolding w_def h_def
    by (simp add: painted_drawFinalImage [OF refl refl refl refl refl refl] assms(7))
  have d: "snd ?drawn = DrawImage img (area_x area) (area_y area) w h 0 0 w h"
    "globalCompositeOperation (fst ?drawn) = source_over"
    "transform (fst ?drawn) =
          [Translate (w / 2) (h / 2), Rotate ((rotation s * pi) / 180),
           Translate (- w / 2) (- h / 2)]"
    by (simp_all add: default_state_def)
  have k: "snd ?clip = FillPath [([], Arc (w / 2) (h / 2) (min w h / 2) 0 (pi * 2))]"
    "globalCompositeOperation (fst ?clip) = destination_in"
    "transform (fst ?clip) = []" "fillStyle (fst ?clip) = Black"
    by (simp_all add: default_state_def)
  have a: "surface_alpha env [?drawn, ?clip] (px, py) =
           (if 0 \<le> min w h / 2 \<and> (px - w / 2)\<^sup>2 + (py - h / 2)\<^sup>2 \<le> (min w h / 2)\<^sup>2
            then surface_alpha env [?drawn] (px, py) else 0)" for px py
    using surface_alpha_snoc [of env "[?drawn]" ?clip "(px, py)"]
    by (simp only: append_Cons append_Nil clip_entry_alpha)
  have a': "\<forall>px py. surface_alpha env [?drawn, ?clip] (px, py) =
           (if 0 \<le> min w h / 2 \<and> (px - w / 2)\<^sup>2 + (py - h / 2)\<^sup>2 \<le> (min w h / 2)\<^sup>2
            then surface_alpha env [?drawn] (px, py) else 0)"
    using a by blast
  have corner: "0 < w \<and> 0 < h \<longrightarrow> surface_alpha env [?drawn, ?clip] (0, 0) = 0"
    using a [of 0 0] corner_outside_circle [of w h] by auto
  have centre: "0 \<le> w \<and> 0 \<le> h \<longrightarrow>
      surface_alpha env [?drawn, ?clip] (w / 2, h / 2) = surface_alpha env [?drawn] (w / 2, h / 2)"
    using a [of "w / 2" "h / 2"] by simp
  from c f sz pt d k a' corner centre show ?thesis
    by (intro exI conjI) assumption+
qed

theorem circular_clip_witness:
  "imageSrc unrotated_state = Some ''data:image/jpeg;base64,AAAA''
   \<and> croppedAreaPixels unrotated_state = Some example_area
   \<and> selectedDate unrotated_state = Some example_date
   \<and> loadImage example_browser ''data:image/jpeg;base64,AAAA'' = Some example_image
   \<and> getContext2d example_browser
   \<and> cropShape unrotated_state = Round
   \<and> (\<exists>s' out drawn clip bst left top bw bh tst t tx ty.
         createFinalImage example_browser unrotated_state = Some s'
         \<and> finalImage s' = Some (toDataURL ''image/png'' out)
         \<and> canvas_width out = 100 \<and> canvas_height out = 80
         \<and> painted (ctx out) =
              [drawn, clip, (bst, FillRect left top bw bh), (tst, FillText t tx ty)]
         \<and> snd drawn = DrawImage example_image 10 20 100 80 0 0 100 80
         \<and> snd clip = FillPath [([], Arc 50 40 40 0 (pi * 2))]
         \<and> globalCompositeOperation (fst clip) = destination_in
         \<and> surface_alpha example_browser [drawn] (0, 0) = 1
         \<and> surface_alpha example_browser [drawn, clip] (0, 0) = 0
         \<and> surface_alpha example_browser [drawn] (50, 40) = 1
         \<and> surface_alpha example_browser [drawn, clip] (50, 40) = 1)"
proof -
  from circular_clip [OF unrotated_guards(1-7), unfolded example_values unrotated_guards(8)]
  obtain s' out drawn clip bst left top bw bh tst t tx ty where
    c: "createFinalImage example_browser unrotated_state = Some s'" and
    f: "finalImage s' = Some (toDataURL ''image/png'' out)" and
    sz: "canvas_width out = 100" "canvas_height out = 80" and
    pt: "painted (ctx out) =
              [drawn, clip, (bst, FillRect left top bw bh), (tst, FillText t tx ty)]" and
    d: "snd drawn = DrawImage example_image 10 20 100 80 0 0 100 80" and
    g: "globalCompositeOperation (fst drawn) = source_over" and
    tr: "transform (fst drawn) = [Translate (100 / 2) (80 / 2), Rotate ((0 * pi) / 180),
           Translate (- 100 / 2) (- 80 / 2)]" and
    k: "snd clip = FillPath [([], Arc (100 / 2) (80 / 2) (min 100 80 / 2) 0 (pi * 2))]" and
    kg: "globalCompositeOperation (fst clip) = destination_in" and
    corner: "0 < (100::real) \<and> 0 < (80::real) \<longrightarrow>
       surface_alpha example_browser [drawn, clip] (0, 0) = 0" and
    centre: "0 \<le> (100::real) \<and> 0 \<le> (80::real) \<longrightarrow>
       surface_alpha example_browser [drawn, clip] (100 / 2, 80 / 2) =
       surface_alpha example_browser [drawn] (100 / 2, 80 / 2)"
    by (elim exE conjE) (rule that, assumption+)
  define st where "st = fst drawn"
  have dr: "drawn = (st, DrawImage example_image 10 20 100 80 0 0 100 80)"
    using d unfolding st_def by (cases drawn) simp
  have u: "to_user (transform st) (50, 40) = (50, 40)"
    "to_user (transform st) (0, 0) = (0, 0)"
    using tr unfolding st_def [symmetric] by (simp_all add: to_user_def)
  have g': "globalCompositeOperation st = source_over"
    using g unfolding st_def .
  have "surface_alpha example_browser
          [(st, DrawImage example_image 10 20 100 80 0 0 100 80)] (50, 40) = 1"
    by (simp add: surface_alpha_def composite_entry_def g' u in_span_def image_alpha_def
        example_image_def)
  then have a1: "surface_alpha example_browser [drawn] (50, 40) = 1"
    unfolding dr .
  have "surface_alpha example_browser
          [(st, DrawImage example_image 10 20 100 80 0 0 100 80)] (0, 0) = 1"
    by (simp add: surface_alpha_def composite_entry_def g' u in_span_def image_alpha_def
        example_image_def)
  then have a0: "surface_alpha example_browser [drawn] (0, 0) = 1"
    unfolding dr .
  have k': "snd clip = FillPath [([], Arc 50 40 40 0 (pi * 2))]"
    using k by simp
  have c0: "surface_alpha example_browser [drawn, clip] (0, 0) = 0"
    using corner by simp
  have c1: "surface_alpha example_browser [drawn, clip] (50, 40) = 1"
    using centre a1 by simp
  from unrotated_guards(1,3-7) c f sz pt d k' kg a0 c0 a1 c1 show ?thesis
    by (intro exI conjI) assumption+
qed


text \<open>
  C1, as the code has it. The only condition on the crop that \<open>createFinalImage\<close> checks
  is that a crop rectangle is selected: without one the call returns and leaves the whole
  state as it was, so nothing is produced. The width and the height of a selected
  rectangle are not examined and no error is raised for them: whenever the other
  conditions for composing are met, the call completes and puts what
  \<open>canvas.toDataURL('image/png')\<close> returns in place of the stored result. For a rectangle
  of zero width or zero height that is the bare \<open>data:,\<close>, not an image.
\<close>

theorem crop_not_validated:
  "(croppedAreaPixels s = None \<longrightarrow> createFinalImage env s = Some s)
   \<and> (imageSrc s = Some src \<and> src \<noteq> [] \<and> croppedAreaPixels s = Some area
        \<and> selectedDate s = Some date \<and> loadImage env src = Some img \<and> getContext2d env \<longrightarrow>
        (\<exists>out. createFinalImage env s =
                 Some (s\<lparr>finalImage := Some (toDataURL ''image/png'' out)\<rparr>)
               \<and> (area_width area = 0 \<or> area_height area = 0 \<longrightarrow>
                    toDataURL ''image/png'' out = EmptyDataURL)))"
proof -
  have "createFinalImage env s = Some s" if "croppedAreaPixels s = None"
    using that by (simp add: createFinalImage_def split: option.splits)
  moreover have "\<exists>out. createFinalImage env s =
                 Some (s\<lparr>finalImage := Some (toDataURL ''image/png'' out)\<rparr>)
               \<and> (area_width area = 0 \<or> area_height area = 0 \<longrightarrow>
                    toDataURL ''image/png'' out = EmptyDataURL)"
    if g: "imageSrc s = Some src" "src \<noteq> []" "croppedAreaPixels s = Some area"
      "selectedDate s = Some date" "loadImage env src = Some img" "getContext2d env"
  proof -
    let ?out = "drawFinalImage env img area (rotation s) (cropShape s) date"
    have "createFinalImage env s = Some (s\<lparr>finalImage := Some (toDataURL ''image/png'' ?out)\<rparr>)"
      by (rule createFinalImage_completes [OF g])
    moreover have "area_width area = 0 \<or> area_height area = 0 \<longrightarrow>
                    toDataURL ''image/png'' ?out = EmptyDataURL"
      by (auto simp: toDataURL_def size_drawFinalImage)
    ultimately show ?thesis by blast
  qed
  ultimately show ?thesis by blast
qed

theorem crop_not_validated_witness:
  "croppedAreaPixels uploaded_state = None
   \<and> finalImage uploaded_state = None
   \<and> createFinalImage example_browser uploaded_state = Some uploaded_state
   \<and> imageSrc zero_width_state = Some ''data:image/jpeg;base64,AAAA''
   \<and> croppedAreaPixels zero_width_state = Some zero_width_area
   \<and> area_width zero_width_area = 0
   \<and> selectedDate zero_width_state = Some example_date
   \<and> loadImage example_browser ''data:image/jpeg;base64,AAAA'' = Some example_image
   \<and> getContext2d example_browser
   \<and> createFinalImage example_browser zero_width_state =
         Some (zero_width_state\<lparr>finalImage := Some EmptyDataURL\<rparr>)"
proof -
  have a: "createFinalImage example_browser uploaded_state = Some uploaded_state"
    using crop_not_validated [of uploaded_state example_browser] uploaded_values(2) by blast
  have z: "area_width zero_width_area = 0"
    by (simp add: zero_width_area_def)
  obtain out where
    c: "createFinalImage example_browser zero_width_state =
         Some (zero_width_state\<lparr>finalImage := Some (toDataURL ''image/png'' out)\<rparr>)" and
    e: "area_width zero_width_area = 0 \<or> area_height zero_width_area = 0 \<longrightarrow>
         toDataURL ''image/png'' out = EmptyDataURL"
    using crop_not_validated [of zero_width_state example_browser
        "''data:image/jpeg;base64,AAAA''" zero_width_area example_date example_image]
      zero_width_guards(1-6) by blast
  from e z have "toDataURL ''image/png'' out = EmptyDataURL"
    by simp
  with c have b: "createFinalImage example_browser zero_width_state =
         Some (zero_width_state\<lparr>finalImage := Some EmptyDataURL\<rparr>)"
    by simp
  from uploaded_values(2,4) a zero_width_guards(1,3) z zero_width_guards(4-6) b show ?thesis
    by (intro conjI) assumption+
qed

text \<open>
  C1, as stated, fails: with the crop rectangle \<open>{x: 0, y: 0, width: 0, height: 50}\<close> and
  a PNG result already generated, the call completes without any error and replaces
  that result with the bare \<open>data:,\<close>: the previous result is not left untouched.
\<close>

theorem zero_width_crop_counterexample:
  "croppedAreaPixels zero_width_state = Some zero_width_area
   \<and> area_width zero_width_area = 0
   \<and> area_height zero_width_area = 50
   \<and> finalImage zero_width_state = Some (DataURL ''image/png'' example_output)
   \<and> createFinalImage example_browser zero_width_state =
       Some (zero_width_state\<lparr>finalImage := Some EmptyDataURL\<rparr>)
   \<and> createFinalImage example_browser zero_width_state \<noteq> Some zero_width_state"
proof -
  have z: "area_width zero_width_area = 0" "area_height zero_width_area = 50"
    by (simp_all add: zero_width_area_def)
  have "canvas_width example_output \<noteq> 0" "canvas_height example_output \<noteq> 0"
    by (simp_all add: example_output_def size_drawFinalImage example_values)
  then have "toDataURL ''image/png'' example_output = DataURL ''image/png'' example_output"
    by (rule toDataURL_pixels)
  with zero_width_guards(9)
  have p: "finalImage zero_width_state = Some (DataURL ''image/png'' example_output)"
    by simp
  have "toDataURL ''image/png''
      (drawFinalImage example_browser example_image zero_width_area
         (rotation zero_width_state) (cropShape zero_width_state) example_date) = EmptyDataURL"
    by (rule toDataURL_empty) (simp add: size_drawFinalImage z)
  with createFinalImage_completes [OF zero_width_guards(1-6)]
  have c: "createFinalImage example_browser zero_width_state =
       Some (zero_width_state\<lparr>finalImage := Some EmptyDataURL\<rparr>)"
    by simp
  have e: "createFinalImage example_browser zero_width_state \<noteq> Some zero_width_state"
  proof
    assume "createFinalImage example_browser zero_width_state = Some zero_width_state"
    with c have "zero_width_state\<lparr>finalImage := Some EmptyDataURL\<rparr> = zero_width_state"
      by simp
    then have "finalImage (zero_width_state\<lparr>finalImage := Some EmptyDataURL\<rparr>) =
        finalImage zero_width_state"
      by (rule arg_cong)
    with p show False by simp
  qed
  from zero_width_guards(3) z p c e show ?thesis
    by (intro conjI) assumption+
qed

text \<open>
  C8. Whenever a call composes an image for a selected date (month index below 12, day at
  most 31), the stored result is what \<open>canvas.toDataURL('image/png')\<close> returns for the
  output surface, which is the surface encoded as \<open>image/png\<close> whenever the crop rectangle
  has a width and a height other than zero. The result link then rendered points to the
  stored result with the file name \<open>photo_\<close>, the date token with every slash replaced by
  a dash, \<open>.png\<close>. The replaced token is the year in decimal, a dash, the two-digit month,
  a dash, the two-digit day; it is as long as the date text and holds no slash. The 7th of
  March 2024 gives \<open>photo_2024-03-07.png\<close>.
\<close>

theorem download_file_name:
  assumes "imageSrc s = Some src" and "src \<noteq> []"
    and "croppedAreaPixels s = Some area" and "selectedDate s = Some date"
    and "loadImage env src = Some img" and "getContext2d env"
    and "getMonth date < 12" and "getDate date \<le> 31"
  shows "\<exists>s' out.
     createFinalImage env s = Some s'
     \<and> finalImage s' = Some (toDataURL ''image/png'' out)
     \<and> (area_width area \<noteq> 0 \<and> area_height area \<noteq> 0 \<longrightarrow>
          toDataURL ''image/png'' out = DataURL ''image/png'' out)
     \<and> resultLink s' =
         Some \<lparr>href = toDataURL ''image/png'' out,
               download = ''photo_'' @ replace_slashes (formatDate date) @ ''.png''\<rparr>
     \<and> replace_slashes (formatDate date) =
         String_of_int (getFullYear date) @
         [CHR ''-'', digit_char ((getMonth date + 1) div 10), digit_char ((getMonth date + 1) mod 10),
          CHR ''-'', digit_char (getDate date div 10), digit_char (getDate date mod 10)]
     \<and> length (replace_slashes (formatDate date)) = length (formatDate date)
     \<and> CHR ''/'' \<notin> set (replace_slashes (formatDate date))"
proof -
  let ?out = "drawFinalImage env img area (rotation s) (cropShape s) date"
  let ?s' = "s\<lparr>finalImage := Some (toDataURL ''image/png'' ?out)\<rparr>"
  have c: "createFinalImage env s = Some ?s'"
    by (rule createFinalImage_completes [OF assms(1-6)])
  have f: "finalImage ?s' = Some (toDataURL ''image/png'' ?out)"
    by simp
  have png: "area_width area \<noteq> 0 \<and> area_height area \<noteq> 0 \<longrightarrow>
          toDataURL ''image/png'' ?out = DataURL ''image/png'' ?out"
    by (simp add: toDataURL_pixels size_drawFinalImage)
  have l: "resultLink ?s' =
         Some \<lparr>href = toDataURL ''image/png'' ?out,
               download = ''photo_'' @ replace_slashes (formatDate date) @ ''.png''\<rparr>"
    using assms(1,2,4) by (simp add: resultLink_def truthy_def downloadName_def)
  have r: "replace_slashes (formatDate date) =
         String_of_int (getFullYear date) @
         [CHR ''-'', digit_char ((getMonth date + 1) div 10), digit_char ((getMonth date + 1) mod 10),
          CHR ''-'', digit_char (getDate date div 10), digit_char (getDate date mod 10)]"
    by (rule replace_slashes_formatDate [OF assms(7,8)])
  have n: "length (replace_slashes (formatDate date)) = length (formatDate date)"
    by (simp add: replace_slashes_def)
  have ns: "CHR ''/'' \<notin> set (replace_slashes (formatDate date))"
    by (rule replace_slashes_no_slash)
  from c f png l r n ns show ?thesis
    by (intro exI conjI) assumption+
qed

theorem download_file_name_witness:
  "imageSrc example_state = Some ''data:image/jpeg;base64,AAAA''
   \<and> croppedAreaPixels example_state = Some example_area
   \<and> area_width example_area = 100 \<and> area_height example_area = 80
   \<and> selectedDate example_state = Some example_date
   \<and> loadImage example_browser ''data:image/jpeg;base64,AAAA'' = Some example_image
   \<and> getContext2d example_browser
   \<and> getMonth example_date < 12 \<and> getDate example_date \<le> 31
   \<and> formatDate example_date = ''2024/03/07''
   \<and> (\<exists>s' out.
         createFinalImage example_browser example_state = Some s'
         \<and> finalImage s' = Some (DataURL ''image/png'' out)
         \<and> resultLink s' =
             Some \<lparr>href = DataURL ''image/png'' out,
                   download = ''photo_2024-03-07.png''\<rparr>)"
proof -
  have m: "getMonth example_date < 12" and d: "getDate example_date \<le> 31"
    by (simp_all add: example_date_def)
  from download_file_name [OF example_guards m d]
  obtain s' out where
    c: "createFinalImage example_browser example_state = Some s'" and
    f: "finalImage s' = Some (toDataURL ''image/png'' out)" and
    png: "area_width example_area \<noteq> 0 \<and> area_height example_area \<noteq> 0 \<longrightarrow>
          toDataURL ''image/png'' out = DataURL ''image/png'' out" and
    l: "resultLink s' =
         Some \<lparr>href = toDataURL ''image/png'' out,
               download = ''photo_'' @ replace_slashes (formatDate example_date) @ ''.png''\<rparr>" and
    r: "replace_slashes (formatDate example_date) =
         String_of_int (getFullYear example_date) @
         [CHR ''-'', digit_char ((getMonth example_date + 1) div 10),
          digit_char ((getMonth example_date + 1) mod 10),
          CHR ''-'', digit_char (getDate example_date div 10),
          digit_char (getDate example_date mod 10)]"
    by (elim exE conjE) (rule that, assumption+)
  have u: "toDataURL ''image/png'' out = DataURL ''image/png'' out"
    using png by (simp add: example_values)
  have f': "finalImage s' = Some (DataURL ''image/png'' out)"
    using f unfolding u .
  have "replace_slashes (formatDate example_date) = ''2024-03-07''"
    unfolding r
    by (simp add: example_date_def String_of_int_def string_of_nat.simps digit_char_def)
  with l have l': "resultLink s' =
             Some \<lparr>href = DataURL ''image/png'' out,
                   download = ''photo_2024-03-07.png''\<rparr>"
    unfolding u by simp
  from example_guards(1,3) example_values(3,4) example_guards(4-6) m d example_values(7) c f' l'
  show ?thesis
    by (intro exI conjI) assumption+
qed

end
